theory Spec2Isabelle
  imports Complex_Main "HOL-Library.AList"
begin

section \<open>Data model (monitoring/models.py)\<close>

text \<open>
  The monitoring service keeps devices, spectrometer and vacuum-chamber resources and the
  latest spectral sample of each spectrometer in four Python dictionaries keyed by id.
  A Python \<open>dict\<close> keeps its keys in insertion order, so a dictionary is an association
  list here: \<open>d[k] = v\<close> is \<open>AList.update k v d\<close> (the value is replaced in place when
  the key exists and appended otherwise), \<open>del d[k]\<close> is \<open>AList.delete k d\<close>,
  \<open>d.get(k)\<close> is \<open>map_of d k\<close> and \<open>k in d\<close> is \<open>k \<in> set (map fst d)\<close>.
  Every entry holds its own object: the routers and \<open>discover_device\<close> build a fresh
  configuration for every \<open>add\<close>.

  Floating-point payloads (readings, wavelengths, fractions) are only stored, compared
  with zero and handed back; they are of type \<open>real\<close>. A \<open>datetime\<close> is an opaque
  time stamp. Logging has no effect on the registry or on a result and is left out.
\<close>

type_synonym datetime = int

datatype DeviceType = SPECTROMETER | VACUUM_CHAMBER

datatype ProcessType = TWO_COMPONENT | THREE_COMPONENT | COMPOSITE_TWO_COMPONENT

datatype DeviceStatus = CONNECTED | DISCONNECTED | ERROR

datatype VacuumChamberStatus = RUNNING | STOPPED

text \<open>A value parsed by \<open>response.json()\<close>; \<open>JObj\<close> holds the parsed dictionary.\<close>

datatype json =
    JNull
  | JBool bool
  | JInt int
  | JFloat real
  | JStr string
  | JArr "json list"
  | JObj "(string \<times> json) list"

record DeviceInfo =
  id_d :: string
  type_d :: DeviceType
  port_d :: int
  address_d :: string
  name_d :: string
  status_d :: DeviceStatus
  capabilities_d :: "(string \<times> json) list"

record SpectrometerConfig =
  id_s :: string
  device_id_s :: string
  name_s :: string
  is_monochromatic :: bool
  control_wavelength :: "real option"
  is_active_s :: bool
  created_at_s :: datetime

record VacuumChamberConfig =
  id_c :: string
  device_id_c :: string
  name_c :: string
  process_type :: ProcessType
  current_material :: "string option"
  current_fraction :: "real option"
  status_c :: VacuumChamberStatus
  is_active_c :: bool
  created_at_c :: datetime

record SpectralData =
  timestamp :: datetime
  calibrated_readings :: "real list"
  wavelengths :: "real list"

record PostSpectralDataRequest =
  req_calibrated_readings :: "real list"
  req_wavelengths :: "real list"

text \<open>Exceptions are values; a computation that may raise returns \<open>exn + 'a\<close>.\<close>

datatype exn =
    HTTPException nat
  | KeyError
  | TypeError
  | ValueError
  | ValidationError
  | AttributeError string
  | JSONDecodeError
  | TimeoutException
  | RequestError
  | OtherError

section \<open>The device registry (monitoring/device_registry.py)\<close>

record DeviceRegistry =
  devices :: "(string \<times> DeviceInfo) list"
  spectrometers :: "(string \<times> SpectrometerConfig) list"
  vacuum_chambers :: "(string \<times> VacuumChamberConfig) list"
  spectral_data :: "(string \<times> SpectralData) list"

definition init_registry :: DeviceRegistry where
  "init_registry = \<lparr>devices = [], spectrometers = [], vacuum_chambers = [], spectral_data = []\<rparr>"

definition get_device :: "DeviceRegistry \<Rightarrow> string \<Rightarrow> DeviceInfo option" where
  "get_device r device_id = map_of (devices r) device_id"


subsection \<open>Spectrometers\<close>

definition add_spectrometer ::
  "SpectrometerConfig \<Rightarrow> DeviceRegistry \<Rightarrow> SpectrometerConfig \<times> DeviceRegistry" where
  "add_spectrometer config r =
     (config, r\<lparr>spectrometers := AList.update (id_s config) config (spectrometers r)\<rparr>)"

definition get_spectrometer :: "DeviceRegistry \<Rightarrow> string \<Rightarrow> SpectrometerConfig option" where
  "get_spectrometer r spectrometer_id = map_of (spectrometers r) spectrometer_id"

text \<open>
  \<open>update_spectrometer(spectrometer_id, **kwargs)\<close> assigns every keyword that names an
  attribute of the configuration and skips the others. A keyword argument is one of the
  fields with a value of the field's type, or a key for which \<open>hasattr\<close> is false.
\<close>

datatype spectrometer_kwarg =
    Set_id_s string
  | Set_device_id_s string
  | Set_name_s string
  | Set_is_monochromatic bool
  | Set_control_wavelength "real option"
  | Set_is_active_s bool
  | Set_created_at_s datetime
  | No_attr_s string

fun setattr_spectrometer :: "spectrometer_kwarg \<Rightarrow> SpectrometerConfig \<Rightarrow> SpectrometerConfig" where
  "setattr_spectrometer (Set_id_s v) config = config\<lparr>id_s := v\<rparr>"
| "setattr_spectrometer (Set_device_id_s v) config = config\<lparr>device_id_s := v\<rparr>"
| "setattr_spectrometer (Set_name_s v) config = config\<lparr>name_s := v\<rparr>"
| "setattr_spectrometer (Set_is_monochromatic v) config = config\<lparr>is_monochromatic := v\<rparr>"
| "setattr_spectrometer (Set_control_wavelength v) config = config\<lparr>control_wavelength := v\<rparr>"
| "setattr_spectrometer (Set_is_active_s v) config = config\<lparr>is_active_s := v\<rparr>"
| "setattr_spectrometer (Set_created_at_s v) config = config\<lparr>created_at_s := v\<rparr>"
| "setattr_spectrometer (No_attr_s key) config = config"

definition update_spectrometer ::
  "string \<Rightarrow> spectrometer_kwarg list \<Rightarrow> DeviceRegistry
     \<Rightarrow> SpectrometerConfig option \<times> DeviceRegistry" where
  "update_spectrometer spectrometer_id kwargs r =
     (case map_of (spectrometers r) spectrometer_id of
        Some config \<Rightarrow>
          (let config' = fold setattr_spectrometer kwargs config
           in (Some config',
               r\<lparr>spectrometers := AList.update spectrometer_id config' (spectrometers r)\<rparr>))
      | None \<Rightarrow> (None, r))"


definition get_active_spectrometer :: "DeviceRegistry \<Rightarrow> SpectrometerConfig option" where
  "get_active_spectrometer r =
     (case filter is_active_s (map snd (spectrometers r)) of
        [] \<Rightarrow> None
      | spec # _ \<Rightarrow> Some spec)"

definition remove_spectrometer :: "string \<Rightarrow> DeviceRegistry \<Rightarrow> bool \<times> DeviceRegistry" where
  "remove_spectrometer spectrometer_id r =
     (if spectrometer_id \<in> set (map fst (spectrometers r))
      then (let r1 = r\<lparr>spectrometers := AList.delete spectrometer_id (spectrometers r)\<rparr>;
                r2 = (if spectrometer_id \<in> set (map fst (spectral_data r1))
                      then r1\<lparr>spectral_data := AList.delete spectrometer_id (spectral_data r1)\<rparr>
                      else r1)
            in (True, r2))
      else (False, r))"

definition store_spectral_data ::
  "string \<Rightarrow> real list \<Rightarrow> real list \<Rightarrow> datetime \<Rightarrow> DeviceRegistry \<Rightarrow> DeviceRegistry" where
  "store_spectral_data spectrometer_id readings wavelengths_in ts r =
     r\<lparr>spectral_data :=
         AList.update spectrometer_id
           \<lparr>timestamp = ts, calibrated_readings = readings, wavelengths = wavelengths_in\<rparr>
           (spectral_data r)\<rparr>"

definition get_spectral_data :: "DeviceRegistry \<Rightarrow> string \<Rightarrow> SpectralData option" where
  "get_spectral_data r spectrometer_id = map_of (spectral_data r) spectrometer_id"

subsection \<open>Vacuum chambers\<close>

definition add_vacuum_chamber ::
  "VacuumChamberConfig \<Rightarrow> DeviceRegistry \<Rightarrow> VacuumChamberConfig \<times> DeviceRegistry" where
  "add_vacuum_chamber config r =
     (config, r\<lparr>vacuum_chambers := AList.update (id_c config) config (vacuum_chambers r)\<rparr>)"

definition get_vacuum_chamber :: "DeviceRegistry \<Rightarrow> string \<Rightarrow> VacuumChamberConfig option" where
  "get_vacuum_chamber r chamber_id = map_of (vacuum_chambers r) chamber_id"





definition get_active_vacuum_chamber :: "DeviceRegistry \<Rightarrow> VacuumChamberConfig option" where
  "get_active_vacuum_chamber r =
     (case filter is_active_c (map snd (vacuum_chambers r)) of
        [] \<Rightarrow> None
      | chamber # _ \<Rightarrow> Some chamber)"


subsection \<open>Values received from a peripheral\<close>

text \<open>Python truthiness of a parsed JSON value, as tested by \<open>if capabilities.get(...)\<close>.\<close>

fun truthy :: "json \<Rightarrow> bool" where
  "truthy JNull = False"
| "truthy (JBool b) = b"
| "truthy (JInt n) = (n \<noteq> 0)"
| "truthy (JFloat x) = (x \<noteq> 0)"
| "truthy (JStr s) = (s \<noteq> [])"
| "truthy (JArr xs) = (xs \<noteq> [])"
| "truthy (JObj d) = (d \<noteq> [])"

text \<open>\<open>d.get(key, dflt)\<close>; \<open>d.get(key)\<close> is \<open>dict_get d key JNull\<close>.\<close>

definition dict_get :: "(string \<times> json) list \<Rightarrow> string \<Rightarrow> json \<Rightarrow> json" where
  "dict_get d key dflt = (case map_of d key of None \<Rightarrow> dflt | Some v \<Rightarrow> v)"

text \<open>\<open>data[key]\<close> with a string key: only a dictionary that has the key answers.\<close>

definition subscript :: "json \<Rightarrow> string \<Rightarrow> exn + json" where
  "subscript data key =
     (case data of
        JObj d \<Rightarrow> (case map_of d key of None \<Rightarrow> Inl KeyError | Some v \<Rightarrow> Inr v)
      | _ \<Rightarrow> Inl TypeError)"

text \<open>Looking an enumeration member up by value: \<open>DeviceType(v)\<close>, \<open>ProcessType(v)\<close>.\<close>

definition DeviceType_of :: "json \<Rightarrow> exn + DeviceType" where
  "DeviceType_of v =
     (case v of
        JStr s \<Rightarrow>
          if s = ''spectrometer'' then Inr SPECTROMETER
          else if s = ''vacuum-chamber'' then Inr VACUUM_CHAMBER
          else Inl ValueError
      | _ \<Rightarrow> Inl ValueError)"

definition ProcessType_of :: "json \<Rightarrow> exn + ProcessType" where
  "ProcessType_of v =
     (case v of
        JStr s \<Rightarrow>
          if s = ''two-component'' then Inr TWO_COMPONENT
          else if s = ''three-component'' then Inr THREE_COMPONENT
          else if s = ''composite-two-component'' then Inr COMPOSITE_TWO_COMPONENT
          else Inl ValueError
      | _ \<Rightarrow> Inl ValueError)"

text \<open>
  Field validation of the pydantic (version 2) models in their default, lax mode: a
  \<open>str\<close> field takes a string, a \<open>dict\<close> field a dictionary, and a \<open>bool\<close> field a
  boolean, the integers and floats 0 and 1, and the strings listed below compared
  without regard to ASCII case. Everything else is a \<open>ValidationError\<close>.
\<close>

definition validate_str :: "json \<Rightarrow> exn + string" where
  "validate_str v = (case v of JStr s \<Rightarrow> Inr s | _ \<Rightarrow> Inl ValidationError)"

definition validate_dict :: "json \<Rightarrow> exn + (string \<times> json) list" where
  "validate_dict v = (case v of JObj d \<Rightarrow> Inr d | _ \<Rightarrow> Inl ValidationError)"

definition ascii_lower :: "char \<Rightarrow> char" where
  "ascii_lower c =
     (let n = (of_char c :: nat) in if 65 \<le> n \<and> n \<le> 90 then char_of (n + 32) else c)"

definition str_as_bool :: "string \<Rightarrow> exn + bool" where
  "str_as_bool s =
     (let l = map ascii_lower s in
      if s = ''0'' \<or> l = ''f'' \<or> l = ''n'' \<or> l = ''no'' \<or> l = ''off'' \<or> l = ''false''
      then Inr False
      else if s = ''1'' \<or> l = ''t'' \<or> l = ''y'' \<or> l = ''on'' \<or> l = ''yes'' \<or> l = ''true''
      then Inr True
      else Inl ValidationError)"

definition validate_bool :: "json \<Rightarrow> exn + bool" where
  "validate_bool v =
     (case v of
        JBool b \<Rightarrow> Inr b
      | JStr s \<Rightarrow> str_as_bool s
      | JInt n \<Rightarrow> if n = 0 then Inr False else if n = 1 then Inr True else Inl ValidationError
      | JFloat x \<Rightarrow> if x = 0 then Inr False else if x = 1 then Inr True else Inl ValidationError
      | _ \<Rightarrow> Inl ValidationError)"

subsection \<open>Discovery\<close>

text \<open>
  What the environment contributes to one call of \<open>discover_device\<close>: the outcome of
  \<open>client.get\<close> and of \<open>client.post\<close> (a response with its status code and its body,
  \<open>None\<close> when the body is not JSON, or an exception), the identifiers drawn by
  \<open>uuid4\<close> and the clock readings of \<open>datetime.now\<close>.
\<close>

datatype http_outcome =
    Response nat "json option"
  | RaisesTimeout
  | RaisesRequestError
  | RaisesOther

record discover_env =
  get_outcome :: http_outcome
  register_outcome :: http_outcome
  new_device_id :: string
  new_spectrometer_id :: string
  new_vacuum_chamber_id :: string
  now_spectrometer :: datetime
  now_vacuum_chamber :: datetime

definition client_request :: "http_outcome \<Rightarrow> exn + nat \<times> json option" where
  "client_request outcome =
     (case outcome of
        Response status_code body \<Rightarrow> Inr (status_code, body)
      | RaisesTimeout \<Rightarrow> Inl TimeoutException
      | RaisesRequestError \<Rightarrow> Inl RequestError
      | RaisesOther \<Rightarrow> Inl OtherError)"

definition response_json :: "json option \<Rightarrow> exn + json" where
  "response_json body = (case body of None \<Rightarrow> Inl JSONDecodeError | Some data \<Rightarrow> Inr data)"

text \<open>Lines 40 to 47: the arguments are evaluated in order, then the model validates.\<close>

definition make_DeviceInfo :: "json \<Rightarrow> int \<Rightarrow> string \<Rightarrow> string \<Rightarrow> exn + DeviceInfo" where
  "make_DeviceInfo data port address new_id =
     (case subscript data ''type'' of
        Inl e \<Rightarrow> Inl e
      | Inr t \<Rightarrow>
          (case DeviceType_of t of
             Inl e \<Rightarrow> Inl e
           | Inr device_type \<Rightarrow>
               (case data of
                  JObj d \<Rightarrow>
                    (case validate_str (dict_get d ''name'' (JStr ''Unknown Device'')) of
                       Inl e \<Rightarrow> Inl e
                     | Inr name \<Rightarrow>
                         (case validate_dict (dict_get d ''capabilities'' (JObj [])) of
                            Inl e \<Rightarrow> Inl e
                          | Inr capabilities \<Rightarrow>
                              Inr \<lparr>id_d = new_id, type_d = device_type, port_d = port,
                                   address_d = address, name_d = name, status_d = CONNECTED,
                                   capabilities_d = capabilities\<rparr>))
                | _ \<Rightarrow> Inl TypeError)))"

text \<open>Lines 57 to 69. The registry is returned as it stands when an exception is raised.\<close>

definition provision_spectrometer ::
  "DeviceInfo \<Rightarrow> discover_env \<Rightarrow> DeviceRegistry \<Rightarrow> (exn + string option) \<times> DeviceRegistry" where
  "provision_spectrometer device_info env r =
     (let capabilities = capabilities_d device_info in
      if truthy (dict_get capabilities ''has_spectrometer'' JNull)
      then (case validate_bool (dict_get capabilities ''is_monochromatic'' (JBool False)) of
              Inl e \<Rightarrow> (Inl e, r)
            | Inr is_mono \<Rightarrow>
                (let spectrometer_config =
                       \<lparr>id_s = new_spectrometer_id env, device_id_s = id_d device_info,
                        name_s = name_d device_info @ '' - Spectrometer'',
                        is_monochromatic = is_mono, control_wavelength = None,
                        is_active_s = False, created_at_s = now_spectrometer env\<rparr>
                 in (Inr (Some (id_s spectrometer_config)),
                     snd (add_spectrometer spectrometer_config r))))
      else (Inr None, r))"

text \<open>Lines 71 to 87.\<close>

definition provision_vacuum_chamber ::
  "DeviceInfo \<Rightarrow> discover_env \<Rightarrow> DeviceRegistry \<Rightarrow> (exn + string option) \<times> DeviceRegistry" where
  "provision_vacuum_chamber device_info env r =
     (let capabilities = capabilities_d device_info in
      if truthy (dict_get capabilities ''has_vacuum_chamber'' JNull)
      then (case ProcessType_of (dict_get capabilities ''process_type'' (JStr ''two-component'')) of
              Inl e \<Rightarrow> (Inl e, r)
            | Inr ptype \<Rightarrow>
                (let vacuum_chamber_config =
                       \<lparr>id_c = new_vacuum_chamber_id env, device_id_c = id_d device_info,
                        name_c = name_d device_info @ '' - Vacuum Chamber'',
                        process_type = ptype, current_material = Some ''H'',
                        current_fraction = None, status_c = STOPPED,
                        is_active_c = False, created_at_c = now_vacuum_chamber env\<rparr>
                 in (Inr (Some (id_c vacuum_chamber_config)),
                     snd (add_vacuum_chamber vacuum_chamber_config r))))
      else (Inr None, r))"

text \<open>
  Lines 95 to 104: the registration callback inside its own \<open>try\<close>. A response of any
  status is only logged, and \<open>except Exception\<close> takes every exception of the request.
\<close>

definition register_device :: "http_outcome \<Rightarrow> exn + unit" where
  "register_device outcome =
     (case client_request outcome of
        Inl reg_error \<Rightarrow> Inr ()
      | Inr (status_code, body) \<Rightarrow> if status_code = 200 then Inr () else Inr ())"

text \<open>The body of the outer \<open>try\<close>, lines 36 to 109.\<close>

definition discover_try ::
  "int \<Rightarrow> string \<Rightarrow> string \<Rightarrow> discover_env \<Rightarrow> DeviceRegistry
     \<Rightarrow> (exn + DeviceInfo option \<times> string option \<times> string option) \<times> DeviceRegistry" where
  "discover_try port address monitoring_api_url env r =
     (case client_request (get_outcome env) of
        Inl e \<Rightarrow> (Inl e, r)
      | Inr (status_code, body) \<Rightarrow>
          if status_code = 200
          then (case response_json body of
                  Inl e \<Rightarrow> (Inl e, r)
                | Inr data \<Rightarrow>
                    (case make_DeviceInfo data port address (new_device_id env) of
                       Inl e \<Rightarrow> (Inl e, r)
                     | Inr device_info \<Rightarrow>
                         (let r1 = r\<lparr>devices :=
                                       AList.update (id_d device_info) device_info (devices r)\<rparr>
                          in case provision_spectrometer device_info env r1 of
                               (Inl e, r2) \<Rightarrow> (Inl e, r2)
                             | (Inr spectrometer_id, r2) \<Rightarrow>
                                 (case provision_vacuum_chamber device_info env r2 of
                                    (Inl e, r3) \<Rightarrow> (Inl e, r3)
                                  | (Inr vacuum_chamber_id, r3) \<Rightarrow>
                                      (case register_device (register_outcome env) of
                                         Inl e \<Rightarrow> (Inl e, r3)
                                       | Inr u \<Rightarrow>
                                           (Inr (Some device_info, spectrometer_id,
                                                 vacuum_chamber_id), r3))))))
          else (Inr (None, None, None), r))"

text \<open>
  Both handlers of the outer \<open>try\<close> (lines 110 to 115) return the triple of \<open>None\<close>;
  what the body stored before it raised stays stored.
\<close>

definition discover_device ::
  "int \<Rightarrow> string \<Rightarrow> string \<Rightarrow> discover_env \<Rightarrow> DeviceRegistry
     \<Rightarrow> (DeviceInfo option \<times> string option \<times> string option) \<times> DeviceRegistry" where
  "discover_device port address monitoring_api_url env r =
     (case discover_try port address monitoring_api_url env r of
        (Inl e, r') \<Rightarrow> ((None, None, None), r')
      | (Inr result, r') \<Rightarrow> (result, r'))"

section \<open>Broadcast fan-out (monitoring/websocket_manager.py)\<close>

text \<open>
  A connection handle is a number. \<open>active_connections\<close> is a Python set: it is a list
  without repetitions here, in the order in which one pass iterates over it. What a
  subscriber does with a message is the environment's choice: \<open>send_text\<close> returns or
  raises. \<open>json.dumps\<close> is one-to-one on the messages built here, so the text that
  is sent is represented by the value it encodes. Every step of a broadcast is recorded
  as an event.
\<close>

type_synonym WebSocket = nat

datatype ws_event =
    Sent WebSocket json
  | SendFailed WebSocket exn
  | Disconnected WebSocket

record WebSocketManager =
  active_connections :: "WebSocket list"

text \<open>\<open>connect\<close> adds the handle once \<open>websocket.accept()\<close> has returned.\<close>

definition connect ::
  "exn + unit \<Rightarrow> WebSocket \<Rightarrow> WebSocketManager \<Rightarrow> (exn + unit) \<times> WebSocketManager" where
  "connect accept_result websocket m =
     (case accept_result of
        Inl e \<Rightarrow> (Inl e, m)
      | Inr u \<Rightarrow>
          (Inr (),
           m\<lparr>active_connections :=
               (if websocket \<in> set (active_connections m) then active_connections m
                else active_connections m @ [websocket])\<rparr>))"

definition disconnect :: "WebSocket \<Rightarrow> WebSocketManager \<Rightarrow> WebSocketManager" where
  "disconnect websocket m = m\<lparr>active_connections := removeAll websocket (active_connections m)\<rparr>"

text \<open>The loop of lines 48 to 54, with the events so far and the set \<open>disconnected\<close>.\<close>

fun send_loop ::
  "(WebSocket \<Rightarrow> json \<Rightarrow> exn + unit) \<Rightarrow> json \<Rightarrow> WebSocket list
     \<Rightarrow> ws_event list \<times> WebSocket list \<Rightarrow> ws_event list \<times> WebSocket list" where
  "send_loop send_text message_json [] (events, disconnected) = (events, disconnected)"
| "send_loop send_text message_json (connection # rest) (events, disconnected) =
     (case send_text connection message_json of
        Inr u \<Rightarrow>
          send_loop send_text message_json rest
            (events @ [Sent connection message_json], disconnected)
      | Inl e \<Rightarrow>
          send_loop send_text message_json rest
            (events @ [SendFailed connection e], List.insert connection disconnected))"

definition spectral_message :: "string \<Rightarrow> string \<Rightarrow> real list \<Rightarrow> json" where
  "spectral_message spectrometer_id ts readings =
     JObj [(''spectrometer_id'', JStr spectrometer_id),
           (''timestamp'', JStr ts),
           (''calibrated_readings'', JArr (map JFloat readings))]"

definition broadcast_spectral_data ::
  "string \<Rightarrow> string \<Rightarrow> real list \<Rightarrow> (WebSocket \<Rightarrow> json \<Rightarrow> exn + unit) \<Rightarrow> WebSocketManager
     \<Rightarrow> (exn + unit) \<times> ws_event list \<times> WebSocketManager" where
  "broadcast_spectral_data spectrometer_id ts readings send_text m =
     (if active_connections m = [] then (Inr (), [], m)
      else (let message_json = spectral_message spectrometer_id ts readings
            in case send_loop send_text message_json (active_connections m) ([], []) of
                 (events, disconnected) \<Rightarrow>
                   (Inr (), events @ map Disconnected disconnected,
                    fold disconnect disconnected m)))"

section \<open>The routers (monitoring/routers/spectrometers.py, vacuum_chambers.py)\<close>



text \<open>
  A request sent to a peripheral: address, port, path and JSON payload. The route
  returns the list of the requests it has made.
\<close>

datatype outbound = POST string int string json

definition set_control_wavelength ::
  "string \<Rightarrow> real \<Rightarrow> http_outcome \<Rightarrow> DeviceRegistry
     \<Rightarrow> (exn + SpectrometerConfig) \<times> DeviceRegistry \<times> outbound list" where
  "set_control_wavelength spectrometer_id wavelength post_outcome r =
     (case get_spectrometer r spectrometer_id of
        None \<Rightarrow> (Inl (HTTPException 404), r, [])
      | Some config \<Rightarrow>
          if \<not> is_monochromatic config then (Inl (HTTPException 400), r, [])
          else (case get_device r (device_id_s config) of
                  None \<Rightarrow> (Inl (HTTPException 404), r, [])
                | Some device \<Rightarrow>
                    (let request = POST (address_d device) (port_d device) ''/control_wavelength''
                                     (JObj [(''wavelength'', JFloat wavelength)])
                     in case client_request post_outcome of
                          Inl TimeoutException \<Rightarrow> (Inl (HTTPException 504), r, [request])
                        | Inl RequestError \<Rightarrow> (Inl (HTTPException 502), r, [request])
                        | Inl e \<Rightarrow> (Inl e, r, [request])
                        | Inr (status_code, body) \<Rightarrow>
                            if status_code \<notin> {200, 201, 204}
                            then (Inl (HTTPException 502), r, [request])
                            else (case update_spectrometer spectrometer_id
                                         [Set_control_wavelength (Some wavelength)] r of
                                    (None, r') \<Rightarrow> (Inl (HTTPException 500), r', [request])
                                  | (Some updated, r') \<Rightarrow> (Inr updated, r', [request])))))"

text \<open>
  \<open>PostSpectralDataRequest\<close> declares the fields \<open>calibrated_readings\<close> and
  \<open>wavelengths\<close> and ignores every other key of the request body. Reading an
  attribute that is not a field of the model raises \<open>AttributeError\<close>.
\<close>

datatype attr = Floats "real list" | Datetime datetime

definition model_fields :: "PostSpectralDataRequest \<Rightarrow> (string \<times> attr) list" where
  "model_fields request =
     [(''calibrated_readings'', Floats (req_calibrated_readings request)),
      (''wavelengths'', Floats (req_wavelengths request))]"

definition getattr_request :: "PostSpectralDataRequest \<Rightarrow> string \<Rightarrow> exn + attr" where
  "getattr_request request name =
     (case map_of (model_fields request) name of
        None \<Rightarrow> Inl (AttributeError name)
      | Some v \<Rightarrow> Inr v)"

text \<open>
  The route of \<open>POST /spectrometers/{id}/data\<close>. The arguments of
  \<open>store_spectral_data\<close> are read from the request from left to right; \<open>isoformat\<close>
  is the rendering of a time stamp as text.
\<close>

definition post_spectral_data ::
  "(datetime \<Rightarrow> string) \<Rightarrow> (WebSocket \<Rightarrow> json \<Rightarrow> exn + unit) \<Rightarrow> string
     \<Rightarrow> PostSpectralDataRequest \<Rightarrow> DeviceRegistry \<Rightarrow> WebSocketManager
     \<Rightarrow> (exn + unit) \<times> DeviceRegistry \<times> WebSocketManager \<times> ws_event list" where
  "post_spectral_data isoformat send_text spectrometer_id request r m =
     (case get_spectrometer r spectrometer_id of
        None \<Rightarrow> (Inl (HTTPException 404), r, m, [])
      | Some config \<Rightarrow>
          (case getattr_request request ''calibrated_readings'' of
             Inl e \<Rightarrow> (Inl e, r, m, [])
           | Inr a1 \<Rightarrow>
               (case getattr_request request ''wavelengths'' of
                  Inl e \<Rightarrow> (Inl e, r, m, [])
                | Inr a2 \<Rightarrow>
                    (case getattr_request request ''timestamp'' of
                       Inl e \<Rightarrow> (Inl e, r, m, [])
                     | Inr a3 \<Rightarrow>
                         (case (a1, a2, a3) of
                            (Floats readings, Floats grid, Datetime ts) \<Rightarrow>
                              (let r' = store_spectral_data spectrometer_id readings grid ts r
                               in case get_spectral_data r' spectrometer_id of
                                    None \<Rightarrow> (Inr (), r', m, [])
                                  | Some stored_data \<Rightarrow>
                                      (case broadcast_spectral_data spectrometer_id
                                              (isoformat (timestamp stored_data))
                                              (calibrated_readings stored_data) send_text m of
                                         (Inl e, events, m') \<Rightarrow> (Inl e, r', m', events)
                                       | (Inr u, events, m') \<Rightarrow> (Inr (), r', m', events)))
                          | _ \<Rightarrow> (Inl ValidationError, r, m, []))))))"

definition get_spectral_data_route ::
  "string \<Rightarrow> DeviceRegistry \<Rightarrow> exn + SpectralData option" where
  "get_spectral_data_route spectrometer_id r =
     (case get_spectrometer r spectrometer_id of
        None \<Rightarrow> Inl (HTTPException 404)
      | Some config \<Rightarrow> Inr (get_spectral_data r spectrometer_id))"

section \<open>Sequences of registry operations\<close>










section \<open>Example states\<close>

definition device_1 :: DeviceInfo where
  "device_1 = \<lparr>id_d = ''dev1'', type_d = SPECTROMETER, port_d = 8100, address_d = ''localhost'',
     name_d = ''Bench'', status_d = CONNECTED,
     capabilities_d = [(''has_spectrometer'', JBool True)]\<rparr>"

definition spec_A :: SpectrometerConfig where
  "spec_A = \<lparr>id_s = ''A'', device_id_s = ''dev1'', name_s = ''Bench - Spectrometer'',
     is_monochromatic = False, control_wavelength = None, is_active_s = True,
     created_at_s = 1\<rparr>"

definition spec_B :: SpectrometerConfig where
  "spec_B = \<lparr>id_s = ''B'', device_id_s = ''dev1'', name_s = ''Second'',
     is_monochromatic = True, control_wavelength = Some 550, is_active_s = False,
     created_at_s = 2\<rparr>"

definition chamber_X :: VacuumChamberConfig where
  "chamber_X = \<lparr>id_c = ''X'', device_id_c = ''dev1'', name_c = ''Main Chamber'',
     process_type = TWO_COMPONENT, current_material = Some ''H'', current_fraction = None,
     status_c = STOPPED, is_active_c = True, created_at_c = 3\<rparr>"

definition chamber_Y :: VacuumChamberConfig where
  "chamber_Y = \<lparr>id_c = ''Y'', device_id_c = ''dev1'', name_c = ''Spare Chamber'',
     process_type = THREE_COMPONENT, current_material = None, current_fraction = None,
     status_c = STOPPED, is_active_c = False, created_at_c = 4\<rparr>"

definition sample_A :: SpectralData where
  "sample_A = \<lparr>timestamp = 10, calibrated_readings = [10.5, 25.3], wavelengths = [400, 500]\<rparr>"

definition example_registry :: DeviceRegistry where
  "example_registry =
     \<lparr>devices = [(''dev1'', device_1)],
      spectrometers = [(''A'', spec_A), (''B'', spec_B)],
      vacuum_chambers = [(''X'', chamber_X), (''Y'', chamber_Y)],
      spectral_data = [(''A'', sample_A)]\<rparr>"


definition example_request :: PostSpectralDataRequest where
  "example_request = \<lparr>req_calibrated_readings = [10.5, 25.3], req_wavelengths = [400, 500]\<rparr>"

definition example_isoformat :: "datetime \<Rightarrow> string" where
  "example_isoformat t = (if t = 10 then ''1970-01-01T00:00:10'' else ''1970-01-01T00:00:00'')"

definition example_manager :: WebSocketManager where
  "example_manager = \<lparr>active_connections = [1, 2, 3]\<rparr>"

definition all_accept :: "WebSocket \<Rightarrow> json \<Rightarrow> exn + unit" where
  "all_accept connection message_json = Inr ()"

definition env_missing_type :: discover_env where
  "env_missing_type =
     \<lparr>get_outcome = Response 200 (Some (JObj [(''name'', JStr ''Bench''),
         (''capabilities'', JObj [(''has_spectrometer'', JBool True)])])),
      register_outcome = Response 200 None,
      new_device_id = ''d-1'', new_spectrometer_id = ''s-1'', new_vacuum_chamber_id = ''c-1'',
      now_spectrometer = 100, now_vacuum_chamber = 101\<rparr>"

definition env_bad_type :: discover_env where
  "env_bad_type =
     env_missing_type\<lparr>get_outcome := Response 200 (Some (JObj [(''type'', JStr ''laser'')]))\<rparr>"

definition env_both :: discover_env where
  "env_both =
     \<lparr>get_outcome = Response 200 (Some (JObj [(''type'', JStr ''vacuum-chamber''),
         (''capabilities'', JObj [(''has_spectrometer'', JBool True),
            (''is_monochromatic'', JBool True), (''has_vacuum_chamber'', JInt 1)])])),
      register_outcome = RaisesTimeout,
      new_device_id = ''d-1'', new_spectrometer_id = ''s-1'', new_vacuum_chamber_id = ''c-1'',
      now_spectrometer = 100, now_vacuum_chamber = 101\<rparr>"

definition device_both :: DeviceInfo where
  "device_both =
     \<lparr>id_d = ''d-1'', type_d = VACUUM_CHAMBER, port_d = 8100, address_d = ''localhost'',
      name_d = ''Unknown Device'', status_d = CONNECTED,
      capabilities_d = [(''has_spectrometer'', JBool True),
            (''is_monochromatic'', JBool True), (''has_vacuum_chamber'', JInt 1)]\<rparr>"

definition registry_both :: DeviceRegistry where
  "registry_both =
     \<lparr>devices = [(''d-1'', device_both)],
      spectrometers = [(''s-1'',
         \<lparr>id_s = ''s-1'', device_id_s = ''d-1'', name_s = ''Unknown Device - Spectrometer'',
          is_monochromatic = True, control_wavelength = None, is_active_s = False,
          created_at_s = 100\<rparr>)],
      vacuum_chambers = [(''c-1'',
         \<lparr>id_c = ''c-1'', device_id_c = ''d-1'', name_c = ''Unknown Device - Vacuum Chamber'',
          process_type = TWO_COMPONENT, current_material = Some ''H'', current_fraction = None,
          status_c = STOPPED, is_active_c = False, created_at_c = 101\<rparr>)],
      spectral_data = []\<rparr>"

definition env_bad_process :: discover_env where
  "env_bad_process =
     env_both\<lparr>get_outcome := Response 200 (Some (JObj [(''type'', JStr ''vacuum-chamber''),
         (''name'', JStr ''Coater''),
         (''capabilities'', JObj [(''has_spectrometer'', JBool True),
            (''has_vacuum_chamber'', JBool True),
            (''process_type'', JStr ''four-component'')])]))\<rparr>"

definition second_fails :: "WebSocket \<Rightarrow> json \<Rightarrow> exn + unit" where
  "second_fails connection message_json = (if connection = 2 then Inl OtherError else Inr ())"

definition env_spec_only :: discover_env where
  "env_spec_only =
     \<lparr>get_outcome = Response 200 (Some (JObj [(''type'', JStr ''spectrometer''),
         (''name'', JStr ''Bench''),
         (''capabilities'', JObj [(''has_spectrometer'', JBool True),
            (''has_vacuum_chamber'', JBool False)])])),
      register_outcome = Response 200 None,
      new_device_id = ''d-2'', new_spectrometer_id = ''s-2'', new_vacuum_chamber_id = ''c-2'',
      now_spectrometer = 200, now_vacuum_chamber = 201\<rparr>"

definition env_bare :: discover_env where
  "env_bare =
     env_spec_only\<lparr>get_outcome := Response 200 (Some (JObj [(''type'', JStr ''spectrometer'')]))\<rparr>"

definition device_spec_only :: DeviceInfo where
  "device_spec_only =
     \<lparr>id_d = ''d-2'', type_d = SPECTROMETER, port_d = 8100, address_d = ''localhost'',
      name_d = ''Bench'', status_d = CONNECTED,
      capabilities_d = [(''has_spectrometer'', JBool True),
            (''has_vacuum_chamber'', JBool False)]\<rparr>"

definition registry_spec_only :: DeviceRegistry where
  "registry_spec_only =
     \<lparr>devices = [(''d-2'', device_spec_only)],
      spectrometers = [(''s-2'',
         \<lparr>id_s = ''s-2'', device_id_s = ''d-2'', name_s = ''Bench - Spectrometer'',
          is_monochromatic = False, control_wavelength = None, is_active_s = False,
          created_at_s = 200\<rparr>)],
      vacuum_chambers = [],
      spectral_data = []\<rparr>"




section \<open>Verified properties\<close>

subsection \<open>Selecting the active resource\<close>









subsection \<open>Removing a spectrometer\<close>

lemma remove_spectrometer_found:
  assumes "spectrometer_id \<in> set (map fst (spectrometers r))"
  shows "\<exists>r'. remove_spectrometer spectrometer_id r = (True, r') \<and>
           get_spectral_data r' spectrometer_id = None \<and>
           spectrometer_id \<notin> set (map fst (spectral_data r')) \<and>
           get_spectrometer r' spectrometer_id = None \<and>
           get_spectral_data_route spectrometer_id r' = Inl (HTTPException 404) \<and>
           (\<forall>k. k \<noteq> spectrometer_id \<longrightarrow>
                get_spectral_data r' k = get_spectral_data r k \<and>
                get_spectrometer r' k = get_spectrometer r k) \<and>
           devices r' = devices r \<and> vacuum_chambers r' = vacuum_chambers r"
proof -
  let ?r' = "r\<lparr>spectrometers := AList.delete spectrometer_id (spectrometers r),
               spectral_data := AList.delete spectrometer_id (spectral_data r)\<rparr>"
  have del_id: "spectrometer_id \<notin> set (map fst (spectral_data r)) \<Longrightarrow>
      AList.delete spectrometer_id (spectral_data r) = spectral_data r"
    by simp
  have run: "remove_spectrometer spectrometer_id r = (True, ?r')"
    using assms del_id by (auto simp: remove_spectrometer_def Let_def)
  have gone: "get_spectral_data ?r' spectrometer_id = None"
    by (simp add: get_spectral_data_def AList.delete_conv')
  have nokey: "spectrometer_id \<notin> set (map fst (spectral_data ?r'))"
    using AList.delete_notin_dom[of spectrometer_id "spectral_data r"] by simp
  have nospec: "get_spectrometer ?r' spectrometer_id = None"
    by (simp add: get_spectrometer_def AList.delete_conv')
  have route: "get_spectral_data_route spectrometer_id ?r' = Inl (HTTPException 404)"
    using nospec by (simp add: get_spectral_data_route_def)
  have others: "\<forall>k. k \<noteq> spectrometer_id \<longrightarrow>
                get_spectral_data ?r' k = get_spectral_data r k \<and>
                get_spectrometer ?r' k = get_spectrometer r k"
    by (simp add: get_spectral_data_def get_spectrometer_def)
  show ?thesis
    using run gone nokey nospec route others by simp
qed

lemma remove_spectrometer_missing:
  "spectrometer_id \<notin> set (map fst (spectrometers r)) \<Longrightarrow>
     remove_spectrometer spectrometer_id r = (False, r)"
  by (simp add: remove_spectrometer_def)

text \<open>
  Claim C6. Removing a spectrometer whose id is a key of the registry also deletes its
  stored sample: afterwards the registry has neither the spectrometer nor a sample
  under that id, so reading the sample gives \<open>None\<close> (and the route answers 404),
  while the entries of every other id are as before. Removing an id that is not a key
  reports failure and leaves the registry unchanged.
\<close>

theorem C6_remove_spectrometer:
  "(spectrometer_id \<in> set (map fst (spectrometers r)) \<longrightarrow>
      (\<exists>r'. remove_spectrometer spectrometer_id r = (True, r') \<and>
           get_spectral_data r' spectrometer_id = None \<and>
           spectrometer_id \<notin> set (map fst (spectral_data r')) \<and>
           get_spectrometer r' spectrometer_id = None \<and>
           get_spectral_data_route spectrometer_id r' = Inl (HTTPException 404) \<and>
           (\<forall>k. k \<noteq> spectrometer_id \<longrightarrow>
                get_spectral_data r' k = get_spectral_data r k \<and>
                get_spectrometer r' k = get_spectrometer r k) \<and>
           devices r' = devices r \<and> vacuum_chambers r' = vacuum_chambers r))
   \<and> (spectrometer_id \<notin> set (map fst (spectrometers r)) \<longrightarrow>
        remove_spectrometer spectrometer_id r = (False, r))"
  using remove_spectrometer_found[of spectrometer_id r]
    remove_spectrometer_missing[of spectrometer_id r]
  by blast

text \<open>Removing \<open>A\<close>, which has a stored sample, and the unknown id \<open>Z\<close>.\<close>

theorem C6_remove_spectrometer_witness:
  "''A'' \<in> set (map fst (spectrometers example_registry)) \<and>
   get_spectral_data example_registry ''A'' = Some sample_A \<and>
   remove_spectrometer ''A'' example_registry =
     (True, example_registry\<lparr>spectrometers := [(''B'', spec_B)], spectral_data := []\<rparr>) \<and>
   get_spectral_data (snd (remove_spectrometer ''A'' example_registry)) ''A'' = None \<and>
   ''Z'' \<notin> set (map fst (spectrometers example_registry)) \<and>
   remove_spectrometer ''Z'' example_registry = (False, example_registry)"
  using C6_remove_spectrometer[of "''A''" example_registry]
    C6_remove_spectrometer[of "''Z''" example_registry]
  by (simp add: example_registry_def remove_spectrometer_def get_spectral_data_def
      AList.delete_eq)

subsection \<open>Posting and reading a spectral sample\<close>

text \<open>
  On the registry itself a stored sample is read back as it was stored, and a second
  store under the same id replaces the first.
\<close>

lemma store_then_get:
  "get_spectral_data (store_spectral_data k readings grid ts r) k =
     Some \<lparr>timestamp = ts, calibrated_readings = readings, wavelengths = grid\<rparr>"
  by (simp add: get_spectral_data_def store_spectral_data_def AList.update_conv')

lemma store_overwrites:
  "store_spectral_data k readings2 grid2 ts2 (store_spectral_data k readings1 grid1 ts1 r) =
     store_spectral_data k readings2 grid2 ts2 r"
  by (simp add: store_spectral_data_def)

text \<open>
  The route that posts a sample reads \<open>request.timestamp\<close>, which is not a field of
  \<open>PostSpectralDataRequest\<close>: for a registered spectrometer it raises before
  \<open>store_spectral_data\<close> is called, whatever the request.
\<close>

lemma getattr_timestamp: "getattr_request request ''timestamp'' = Inl (AttributeError ''timestamp'')"
  by (simp add: getattr_request_def model_fields_def)

lemma post_spectral_data_raises:
  "post_spectral_data isoformat send_text spectrometer_id request r m =
     (case get_spectrometer r spectrometer_id of
        None \<Rightarrow> (Inl (HTTPException 404), r, m, [])
      | Some config \<Rightarrow> (Inl (AttributeError ''timestamp''), r, m, []))"
  by (simp add: post_spectral_data_def getattr_request_def model_fields_def split: option.splits)

text \<open>
  Claim C5 (posting a sample and reading it back returns the posted sample). In the
  example registry, posting a sample for the registered spectrometer \<open>B\<close> raises
  \<open>AttributeError\<close>, stores nothing and broadcasts nothing; a following read
  returns no sample.
\<close>

theorem C5_post_raises_attribute_error:
  "post_spectral_data example_isoformat all_accept ''B'' example_request example_registry
       example_manager =
     (Inl (AttributeError ''timestamp''), example_registry, example_manager, []) \<and>
   get_spectral_data_route ''B'' example_registry = Inr None"
  by (simp add: post_spectral_data_raises get_spectrometer_def get_spectral_data_route_def
      get_spectral_data_def example_registry_def)

subsection \<open>Setting the control wavelength\<close>

text \<open>
  Claim C9. For a registered spectrometer that is not monochromatic and every requested
  wavelength greater than 0, the route fails with status 400, the registry (and with it
  the control wavelength of the spectrometer) is unchanged and no request is sent to the
  peripheral, whatever the peripheral would have answered.
\<close>

theorem C9_not_monochromatic:
  assumes "get_spectrometer r spectrometer_id = Some config"
    and "\<not> is_monochromatic config"
    and "0 < wavelength"
  shows "set_control_wavelength spectrometer_id wavelength post_outcome r =
           (Inl (HTTPException 400), r, [])"
  using assms by (simp add: set_control_wavelength_def)

text \<open>Spectrometer \<open>A\<close> of the example registry is not monochromatic.\<close>

theorem C9_not_monochromatic_witness:
  "get_spectrometer example_registry ''A'' = Some spec_A \<and> \<not> is_monochromatic spec_A \<and>
   (0::real) < 550 \<and>
   set_control_wavelength ''A'' 550 (Response 200 None) example_registry =
     (Inl (HTTPException 400), example_registry, []) \<and>
   control_wavelength spec_A = None"
proof -
  have h1: "get_spectrometer example_registry ''A'' = Some spec_A"
    by (simp add: get_spectrometer_def example_registry_def)
  have h2: "\<not> is_monochromatic spec_A"
    by (simp add: spec_A_def)
  have h3: "(0::real) < 550"
    by simp
  show ?thesis
    using h1 h2 h3 C9_not_monochromatic[OF h1 h2 h3, of "Response 200 None"]
    by (simp add: spec_A_def)
qed

subsection \<open>Discovery: a response without a usable device type\<close>

lemma DeviceType_of_invalid:
  "v \<noteq> JStr ''spectrometer'' \<Longrightarrow> v \<noteq> JStr ''vacuum-chamber'' \<Longrightarrow> DeviceType_of v = Inl ValueError"
  by (cases v) (simp_all add: DeviceType_of_def)

lemma make_DeviceInfo_bad_type:
  assumes "map_of d ''type'' = None \<or>
           (\<exists>v. map_of d ''type'' = Some v \<and> v \<noteq> JStr ''spectrometer'' \<and> v \<noteq> JStr ''vacuum-chamber'')"
  shows "\<exists>e. make_DeviceInfo (JObj d) port address new_id = Inl e"
  using assms
  by (auto simp: make_DeviceInfo_def subscript_def DeviceType_of_invalid)

text \<open>
  Claim C10. When the query is answered with status 200 and a JSON object that has no
  key \<open>type\<close>, or whose \<open>type\<close> is neither \<open>spectrometer\<close> nor
  \<open>vacuum-chamber\<close>, the body of the \<open>try\<close> raises, the exception is caught,
  and \<open>discover_device\<close> returns the triple of \<open>None\<close> with the registry unchanged.
\<close>

theorem C10_bad_type_soft_failure:
  assumes "get_outcome env = Response 200 (Some (JObj d))"
    and "map_of d ''type'' = None \<or>
         (\<exists>v. map_of d ''type'' = Some v \<and> v \<noteq> JStr ''spectrometer'' \<and> v \<noteq> JStr ''vacuum-chamber'')"
  shows "(\<exists>e. discover_try port address monitoring_api_url env r = (Inl e, r)) \<and>
         discover_device port address monitoring_api_url env r = ((None, None, None), r)"
proof -
  obtain e where e: "make_DeviceInfo (JObj d) port address (new_device_id env) = Inl e"
    using make_DeviceInfo_bad_type[OF assms(2)] by blast
  have body: "discover_try port address monitoring_api_url env r = (Inl e, r)"
    by (simp add: discover_try_def client_request_def response_json_def assms(1) e)
  then show ?thesis
    by (simp add: discover_device_def)
qed

text \<open>A response without \<open>type\<close> and one with the type \<open>laser\<close>.\<close>

theorem C10_bad_type_soft_failure_witness:
  "discover_device 8100 ''localhost'' ''http://monitor'' env_missing_type example_registry =
     ((None, None, None), example_registry) \<and>
   discover_device 8100 ''localhost'' ''http://monitor'' env_bad_type example_registry =
     ((None, None, None), example_registry)"
proof -
  let ?d1 = "[(''name'', JStr ''Bench''),
         (''capabilities'', JObj [(''has_spectrometer'', JBool True)])]"
  let ?d2 = "[(''type'', JStr ''laser'')]"
  have g1: "get_outcome env_missing_type = Response 200 (Some (JObj ?d1))"
    by (simp add: env_missing_type_def)
  have t1: "map_of ?d1 ''type'' = None \<or>
         (\<exists>v. map_of ?d1 ''type'' = Some v \<and> v \<noteq> JStr ''spectrometer'' \<and> v \<noteq> JStr ''vacuum-chamber'')"
    by simp
  have g2: "get_outcome env_bad_type = Response 200 (Some (JObj ?d2))"
    by (simp add: env_bad_type_def)
  have t2: "map_of ?d2 ''type'' = None \<or>
         (\<exists>v. map_of ?d2 ''type'' = Some v \<and> v \<noteq> JStr ''spectrometer'' \<and> v \<noteq> JStr ''vacuum-chamber'')"
    by simp
  show ?thesis
    using C10_bad_type_soft_failure[OF g1 t1, of 8100 "''localhost''" "''http://monitor''" example_registry]
      C10_bad_type_soft_failure[OF g2 t2, of 8100 "''localhost''" "''http://monitor''" example_registry]
    by simp
qed

subsection \<open>Discovery\<close>

lemma eval_both:
  "discover_device 8100 ''localhost'' ''http://monitor'' env_both init_registry =
     ((Some device_both, Some ''s-1'', Some ''c-1''), registry_both)"
  by (simp add: discover_device_def discover_try_def client_request_def response_json_def
      make_DeviceInfo_def subscript_def DeviceType_of_def validate_str_def validate_dict_def
      dict_get_def provision_spectrometer_def provision_vacuum_chamber_def validate_bool_def
      ProcessType_of_def register_device_def add_spectrometer_def add_vacuum_chamber_def
      env_both_def init_registry_def device_both_def registry_both_def)

lemma eval_bad_process:
  "discover_device 8100 ''localhost'' ''http://monitor'' env_bad_process init_registry =
     ((None, None, None),
      init_registry\<lparr>devices := [(''d-1'', device_both\<lparr>name_d := ''Coater'',
          capabilities_d := [(''has_spectrometer'', JBool True),
            (''has_vacuum_chamber'', JBool True),
            (''process_type'', JStr ''four-component'')]\<rparr>)],
         spectrometers := [(''s-1'',
         \<lparr>id_s = ''s-1'', device_id_s = ''d-1'', name_s = ''Coater - Spectrometer'',
          is_monochromatic = False, control_wavelength = None, is_active_s = False,
          created_at_s = 100\<rparr>)]\<rparr>)"
  by (simp add: discover_device_def discover_try_def client_request_def response_json_def
      make_DeviceInfo_def subscript_def DeviceType_of_def validate_str_def validate_dict_def
      dict_get_def provision_spectrometer_def provision_vacuum_chamber_def validate_bool_def
      ProcessType_of_def register_device_def add_spectrometer_def add_vacuum_chamber_def
      env_both_def env_bad_process_def init_registry_def device_both_def)


lemma register_device_swallows: "register_device outcome = Inr ()"
  by (simp add: register_device_def split: sum.splits prod.splits)

lemma provision_spectrometer_register:
  "provision_spectrometer device_info (env\<lparr>register_outcome := outcome\<rparr>) r =
     provision_spectrometer device_info env r"
  by (simp add: provision_spectrometer_def Let_def split: sum.splits)

lemma provision_vacuum_chamber_register:
  "provision_vacuum_chamber device_info (env\<lparr>register_outcome := outcome\<rparr>) r =
     provision_vacuum_chamber device_info env r"
  by (simp add: provision_vacuum_chamber_def Let_def split: sum.splits)

lemma discover_try_register:
  "discover_try port address url (env\<lparr>register_outcome := outcome\<rparr>) r =
     discover_try port address url env r"
  by (simp add: discover_try_def register_device_swallows provision_spectrometer_register
      provision_vacuum_chamber_register Let_def split: sum.splits prod.splits)

lemma discover_get_failure:
  assumes "\<forall>body. get_outcome env \<noteq> Response 200 body"
  shows "discover_device port address url env r = ((None, None, None), r)"
  using assms
  by (cases "get_outcome env")
    (auto simp: discover_device_def discover_try_def client_request_def)

lemma make_DeviceInfo_Inr:
  assumes "make_DeviceInfo data port address new_id = Inr device_info"
  shows "\<exists>d t. data = JObj d \<and> map_of d ''type'' = Some t \<and>
           DeviceType_of t = Inr (type_d device_info) \<and>
           validate_str (dict_get d ''name'' (JStr ''Unknown Device'')) = Inr (name_d device_info) \<and>
           validate_dict (dict_get d ''capabilities'' (JObj [])) = Inr (capabilities_d device_info) \<and>
           id_d device_info = new_id \<and> port_d device_info = port \<and>
           address_d device_info = address \<and> status_d device_info = CONNECTED"
  using assms
  by (auto simp: make_DeviceInfo_def subscript_def split: json.splits option.splits sum.splits)

lemma provision_spectrometer_Inr:
  assumes "provision_spectrometer device_info env r = (Inr sid, r2)"
  shows "(truthy (dict_get (capabilities_d device_info) ''has_spectrometer'' JNull) \<longrightarrow>
            sid = Some (new_spectrometer_id env) \<and>
            (\<exists>is_mono.
               validate_bool (dict_get (capabilities_d device_info) ''is_monochromatic'' (JBool False))
                 = Inr is_mono \<and>
               r2 = r\<lparr>spectrometers :=
                      AList.update (new_spectrometer_id env)
                        \<lparr>id_s = new_spectrometer_id env, device_id_s = id_d device_info,
                         name_s = name_d device_info @ '' - Spectrometer'',
                         is_monochromatic = is_mono, control_wavelength = None,
                         is_active_s = False, created_at_s = now_spectrometer env\<rparr>
                        (spectrometers r)\<rparr>)) \<and>
         (\<not> truthy (dict_get (capabilities_d device_info) ''has_spectrometer'' JNull) \<longrightarrow>
            sid = None \<and> r2 = r)"
  using assms
  by (auto simp: provision_spectrometer_def add_spectrometer_def Let_def
      split: if_splits sum.splits)

lemma provision_vacuum_chamber_Inr:
  assumes "provision_vacuum_chamber device_info env r = (Inr cid, r3)"
  shows "(truthy (dict_get (capabilities_d device_info) ''has_vacuum_chamber'' JNull) \<longrightarrow>
            cid = Some (new_vacuum_chamber_id env) \<and>
            (\<exists>ptype.
               ProcessType_of (dict_get (capabilities_d device_info) ''process_type''
                   (JStr ''two-component'')) = Inr ptype \<and>
               r3 = r\<lparr>vacuum_chambers :=
                      AList.update (new_vacuum_chamber_id env)
                        \<lparr>id_c = new_vacuum_chamber_id env, device_id_c = id_d device_info,
                         name_c = name_d device_info @ '' - Vacuum Chamber'',
                         process_type = ptype, current_material = Some ''H'',
                         current_fraction = None, status_c = STOPPED,
                         is_active_c = False, created_at_c = now_vacuum_chamber env\<rparr>
                        (vacuum_chambers r)\<rparr>)) \<and>
         (\<not> truthy (dict_get (capabilities_d device_info) ''has_vacuum_chamber'' JNull) \<longrightarrow>
            cid = None \<and> r3 = r)"
  using assms
  by (auto simp: provision_vacuum_chamber_def add_vacuum_chamber_def Let_def
      split: if_splits sum.splits)

lemma discover_device_Some:
  assumes "discover_device port address url env r = ((Some device_info, sid, cid), r')"
  shows "\<exists>data r2.
           get_outcome env = Response 200 (Some data) \<and>
           make_DeviceInfo data port address (new_device_id env) = Inr device_info \<and>
           provision_spectrometer device_info env
             (r\<lparr>devices := AList.update (id_d device_info) device_info (devices r)\<rparr>) = (Inr sid, r2) \<and>
           provision_vacuum_chamber device_info env r2 = (Inr cid, r')"
  using assms
  by (auto simp: discover_device_def discover_try_def client_request_def response_json_def Let_def
      split: http_outcome.splits if_splits option.splits sum.splits prod.splits)


text \<open>
  Claim C3 (every call that returns the no-device outcome leaves the registry as it
  was). A peripheral answers 200 and declares a spectrometer and a vacuum chamber with
  the process type \<open>four-component\<close>: \<open>ProcessType(...)\<close> raises after the device
  and the spectrometer have been stored, the handler returns the triple of \<open>None\<close>,
  and the registry keeps the device and the spectrometer.
\<close>

theorem C3_no_device_but_state_kept:
  "fst (discover_device 8100 ''localhost'' ''http://monitor'' env_bad_process init_registry) =
     (None, None, None) \<and>
   map fst (devices (snd (discover_device 8100 ''localhost'' ''http://monitor''
       env_bad_process init_registry))) = [''d-1''] \<and>
   map fst (spectrometers (snd (discover_device 8100 ''localhost'' ''http://monitor''
       env_bad_process init_registry))) = [''s-1''] \<and>
   snd (discover_device 8100 ''localhost'' ''http://monitor'' env_bad_process init_registry) \<noteq>
     init_registry"
  by (simp only: eval_bad_process) (simp add: init_registry_def)

text \<open>
  Claim C8. If a discovery returns a device, then with every other outcome of the
  registration callback (an exception, a timeout, a response of any status) it returns
  the same device, the same resource ids and the same registry, and in that registry the
  device and the resources it created are registered.
\<close>

theorem C8_registration_failure_swallowed:
  assumes "discover_device port address url env r = ((Some device_info, sid, cid), r')"
  shows "discover_device port address url (env\<lparr>register_outcome := outcome\<rparr>) r =
           ((Some device_info, sid, cid), r') \<and>
         get_device r' (id_d device_info) = Some device_info \<and>
         (\<forall>k. sid = Some k \<longrightarrow>
              (\<exists>spec. get_spectrometer r' k = Some spec \<and> device_id_s spec = id_d device_info)) \<and>
         (\<forall>k. cid = Some k \<longrightarrow>
              (\<exists>chamber. get_vacuum_chamber r' k = Some chamber \<and>
                 device_id_c chamber = id_d device_info))"
proof -
  have same: "discover_device port address url (env\<lparr>register_outcome := outcome\<rparr>) r =
      ((Some device_info, sid, cid), r')"
    using assms by (simp add: discover_device_def discover_try_register)
  obtain r2 where
    ps: "provision_spectrometer device_info env
           (r\<lparr>devices := AList.update (id_d device_info) device_info (devices r)\<rparr>) = (Inr sid, r2)"
    and pc: "provision_vacuum_chamber device_info env r2 = (Inr cid, r')"
    using discover_device_Some[OF assms] by blast
  note s = provision_spectrometer_Inr[OF ps]
  note c = provision_vacuum_chamber_Inr[OF pc]
  have dev: "get_device r' (id_d device_info) = Some device_info"
    using s c by (auto simp: get_device_def AList.update_conv')
  have spec: "\<forall>k. sid = Some k \<longrightarrow>
              (\<exists>spec. get_spectrometer r' k = Some spec \<and> device_id_s spec = id_d device_info)"
    using s c by (auto simp: get_spectrometer_def AList.update_conv')
  have chamber: "\<forall>k. cid = Some k \<longrightarrow>
              (\<exists>chamber. get_vacuum_chamber r' k = Some chamber \<and>
                 device_id_c chamber = id_d device_info)"
    using s c by (auto simp: get_vacuum_chamber_def AList.update_conv')
  show ?thesis
    using same dev spec chamber by simp
qed

text \<open>
  The callback of \<open>env_both\<close> times out; with a callback answered by status 500 the
  discovery gives the same result.
\<close>

theorem C8_registration_failure_swallowed_witness:
  "register_outcome env_both = RaisesTimeout \<and>
   discover_device 8100 ''localhost'' ''http://monitor'' env_both init_registry =
     ((Some device_both, Some ''s-1'', Some ''c-1''), registry_both) \<and>
   discover_device 8100 ''localhost'' ''http://monitor''
       (env_both\<lparr>register_outcome := Response 500 None\<rparr>) init_registry =
     ((Some device_both, Some ''s-1'', Some ''c-1''), registry_both) \<and>
   get_device registry_both ''d-1'' = Some device_both"
proof -
  have h: "discover_device 8100 ''localhost'' ''http://monitor'' env_both init_registry =
     ((Some device_both, Some ''s-1'', Some ''c-1''), registry_both)"
    by (rule eval_both)
  show ?thesis
    using h C8_registration_failure_swallowed[OF h, of "Response 500 None"]
    by (simp add: env_both_def device_both_def)
qed

text \<open>
  Claim C4, as stated for every discovery whose query is answered with status 200,
  fails: a body without \<open>type\<close> that declares \<open>has_spectrometer\<close> creates no
  spectrometer.
\<close>

theorem C4_counterexample:
  "get_outcome env_missing_type =
     Response 200 (Some (JObj [(''name'', JStr ''Bench''),
         (''capabilities'', JObj [(''has_spectrometer'', JBool True)])])) \<and>
   truthy (dict_get [(''has_spectrometer'', JBool True)] ''has_spectrometer'' JNull) \<and>
   spectrometers (snd (discover_device 8100 ''localhost'' ''http://monitor'' env_missing_type
       init_registry)) = []"
  by (simp add: env_missing_type_def dict_get_def discover_device_def discover_try_def
      client_request_def response_json_def make_DeviceInfo_def subscript_def init_registry_def)

text \<open>
  Claim C4, amended. For every discovery whose query is answered with status 200 and a
  body that passes validation (a JSON object whose \<open>type\<close> is \<open>spectrometer\<close> or
  \<open>vacuum-chamber\<close>, whose \<open>name\<close> is absent or a string, whose
  \<open>capabilities\<close> are absent or an object, whose \<open>is_monochromatic\<close> is absent
  or a valid boolean when \<open>has_spectrometer\<close> is truthy, and whose
  \<open>process_type\<close> is absent or a known process type when \<open>has_vacuum_chamber\<close>
  is truthy): the discovery returns the device, stored as connected under a fresh id and
  named as in the body, or \<open>Unknown Device\<close> when the body has no name; a
  spectrometer is created if and only if \<open>has_spectrometer\<close> is truthy, with
  \<open>is_monochromatic\<close> taken from the capabilities (false when absent), no control
  wavelength and inactive; a vacuum chamber is created if and only if
  \<open>has_vacuum_chamber\<close> is truthy, with the process type of the capabilities
  (two-component when absent), material \<open>H\<close>, no fraction, stopped and inactive;
  a returned resource id is \<open>None\<close> exactly when its capability is not truthy.
\<close>

theorem C4_valid_body_provisioning:
  assumes query: "get_outcome env = Response 200 (Some (JObj d))"
    and type_in: "map_of d ''type'' = Some (JStr ty)"
      "ty = ''spectrometer'' \<or> ty = ''vacuum-chamber''"
    and name_in: "map_of d ''name'' = None \<and> name = ''Unknown Device'' \<or>
                  map_of d ''name'' = Some (JStr name)"
    and caps_in: "map_of d ''capabilities'' = None \<and> caps = [] \<or>
                  map_of d ''capabilities'' = Some (JObj caps)"
    and has_s: "has_s \<longleftrightarrow> (\<exists>v. map_of caps ''has_spectrometer'' = Some v \<and> truthy v)"
    and has_c: "has_c \<longleftrightarrow> (\<exists>v. map_of caps ''has_vacuum_chamber'' = Some v \<and> truthy v)"
    and mono_in: "has_s \<longrightarrow>
                    map_of caps ''is_monochromatic'' = None \<and> \<not> is_mono \<or>
                    (\<exists>v. map_of caps ''is_monochromatic'' = Some v \<and> validate_bool v = Inr is_mono)"
    and proc_in: "has_c \<longrightarrow>
                    map_of caps ''process_type'' = None \<and> ptype = TWO_COMPONENT \<or>
                    (\<exists>v. map_of caps ''process_type'' = Some v \<and> ProcessType_of v = Inr ptype)"
  shows "discover_device port address url env r =
           ((Some \<lparr>id_d = new_device_id env,
                   type_d = (if ty = ''spectrometer'' then SPECTROMETER else VACUUM_CHAMBER),
                   port_d = port, address_d = address, name_d = name, status_d = CONNECTED,
                   capabilities_d = caps\<rparr>,
             (if has_s then Some (new_spectrometer_id env) else None),
             (if has_c then Some (new_vacuum_chamber_id env) else None)),
            r\<lparr>devices :=
                AList.update (new_device_id env)
                  \<lparr>id_d = new_device_id env,
                   type_d = (if ty = ''spectrometer'' then SPECTROMETER else VACUUM_CHAMBER),
                   port_d = port, address_d = address, name_d = name, status_d = CONNECTED,
                   capabilities_d = caps\<rparr>
                  (devices r),
              spectrometers :=
                (if has_s
                 then AList.update (new_spectrometer_id env)
                        \<lparr>id_s = new_spectrometer_id env, device_id_s = new_device_id env,
                         name_s = name @ '' - Spectrometer'', is_monochromatic = is_mono,
                         control_wavelength = None, is_active_s = False,
                         created_at_s = now_spectrometer env\<rparr>
                        (spectrometers r)
                 else spectrometers r),
              vacuum_chambers :=
                (if has_c
                 then AList.update (new_vacuum_chamber_id env)
                        \<lparr>id_c = new_vacuum_chamber_id env, device_id_c = new_device_id env,
                         name_c = name @ '' - Vacuum Chamber'', process_type = ptype,
                         current_material = Some ''H'', current_fraction = None,
                         status_c = STOPPED, is_active_c = False,
                         created_at_c = now_vacuum_chamber env\<rparr>
                        (vacuum_chambers r)
                 else vacuum_chambers r)\<rparr>)"
proof -
  let ?dev = "\<lparr>id_d = new_device_id env,
                   type_d = (if ty = ''spectrometer'' then SPECTROMETER else VACUUM_CHAMBER),
                   port_d = port, address_d = address, name_d = name, status_d = CONNECTED,
                   capabilities_d = caps\<rparr>"
  let ?r1 = "r\<lparr>devices := AList.update (id_d ?dev) ?dev (devices r)\<rparr>"
  let ?sid = "if has_s then Some (new_spectrometer_id env) else None"
  let ?cid = "if has_c then Some (new_vacuum_chamber_id env) else None"
  let ?r2 = "?r1\<lparr>spectrometers :=
                (if has_s
                 then AList.update (new_spectrometer_id env)
                        \<lparr>id_s = new_spectrometer_id env, device_id_s = new_device_id env,
                         name_s = name @ '' - Spectrometer'', is_monochromatic = is_mono,
                         control_wavelength = None, is_active_s = False,
                         created_at_s = now_spectrometer env\<rparr>
                        (spectrometers r)
                 else spectrometers r)\<rparr>"
  let ?r3 = "?r2\<lparr>vacuum_chambers :=
                (if has_c
                 then AList.update (new_vacuum_chamber_id env)
                        \<lparr>id_c = new_vacuum_chamber_id env, device_id_c = new_device_id env,
                         name_c = name @ '' - Vacuum Chamber'', process_type = ptype,
                         current_material = Some ''H'', current_fraction = None,
                         status_c = STOPPED, is_active_c = False,
                         created_at_c = now_vacuum_chamber env\<rparr>
                        (vacuum_chambers r)
                 else vacuum_chambers r)\<rparr>"
  have ty: "DeviceType_of (JStr ty) =
      Inr (if ty = ''spectrometer'' then SPECTROMETER else VACUUM_CHAMBER)"
    using type_in(2) by (auto simp: DeviceType_of_def)
  have nm: "validate_str (dict_get d ''name'' (JStr ''Unknown Device'')) = Inr name"
    using name_in by (auto simp: dict_get_def validate_str_def)
  have cp: "validate_dict (dict_get d ''capabilities'' (JObj [])) = Inr caps"
    using caps_in by (auto simp: dict_get_def validate_dict_def)
  have mk: "make_DeviceInfo (JObj d) port address (new_device_id env) = Inr ?dev"
    by (simp add: make_DeviceInfo_def subscript_def type_in(1) ty nm cp)
  have ts: "truthy (dict_get caps ''has_spectrometer'' JNull) \<longleftrightarrow> has_s"
    using has_s by (auto simp: dict_get_def split: option.splits)
  have tc: "truthy (dict_get caps ''has_vacuum_chamber'' JNull) \<longleftrightarrow> has_c"
    using has_c by (auto simp: dict_get_def split: option.splits)
  have vb: "has_s \<Longrightarrow>
      validate_bool (dict_get caps ''is_monochromatic'' (JBool False)) = Inr is_mono"
    using mono_in by (auto simp: dict_get_def validate_bool_def)
  have pt: "has_c \<Longrightarrow>
      ProcessType_of (dict_get caps ''process_type'' (JStr ''two-component'')) = Inr ptype"
    using proc_in by (auto simp: dict_get_def ProcessType_of_def)
  have ps: "provision_spectrometer ?dev env ?r1 = (Inr ?sid, ?r2)"
  proof (cases has_s)
    case True
    then show ?thesis
      using vb by (simp add: provision_spectrometer_def ts add_spectrometer_def)
  next
    case False
    then show ?thesis
      by (simp add: provision_spectrometer_def ts)
  qed
  have pc: "provision_vacuum_chamber ?dev env ?r2 = (Inr ?cid, ?r3)"
  proof (cases has_c)
    case True
    then show ?thesis
      using pt by (simp add: provision_vacuum_chamber_def tc add_vacuum_chamber_def)
  next
    case False
    then show ?thesis
      by (simp add: provision_vacuum_chamber_def tc)
  qed
  have body: "discover_try port address url env r = (Inr (Some ?dev, ?sid, ?cid), ?r3)"
    by (simp only: discover_try_def query client_request_def response_json_def mk ps pc
        register_device_swallows Let_def http_outcome.case sum.case prod.case option.case
        if_True refl)
  have "discover_device port address url env r = ((Some ?dev, ?sid, ?cid), ?r3)"
    by (simp only: discover_device_def body prod.case sum.case)
  then show ?thesis
    by simp
qed


text \<open>
  Three peripherals discovered into the empty registry: one that declares both
  capabilities and gives neither a name nor a process type; one that declares a
  spectrometer without \<open>is_monochromatic\<close> and a vacuum chamber that is false; and
  one that sends its type only.
\<close>

theorem C4_valid_body_provisioning_witness:
  "discover_device 8100 ''localhost'' ''http://monitor'' env_both init_registry =
     ((Some device_both, Some ''s-1'', Some ''c-1''), registry_both) \<and>
   discover_device 8100 ''localhost'' ''http://monitor'' env_spec_only init_registry =
     ((Some device_spec_only, Some ''s-2'', None), registry_spec_only) \<and>
   discover_device 8100 ''localhost'' ''http://monitor'' env_bare init_registry =
     ((Some (device_spec_only\<lparr>name_d := ''Unknown Device'', capabilities_d := []\<rparr>), None, None),
      init_registry\<lparr>devices := [(''d-2'',
         device_spec_only\<lparr>name_d := ''Unknown Device'', capabilities_d := []\<rparr>)]\<rparr>)"
proof -
  have q1: "get_outcome env_both = Response 200 (Some (JObj [(''type'', JStr ''vacuum-chamber''), (''capabilities'', JObj [(''has_spectrometer'', JBool True), (''is_monochromatic'', JBool True), (''has_vacuum_chamber'', JInt 1)])]))"
    by (simp add: env_both_def )
  have t1: "map_of [(''type'', JStr ''vacuum-chamber''), (''capabilities'', JObj [(''has_spectrometer'', JBool True), (''is_monochromatic'', JBool True), (''has_vacuum_chamber'', JInt 1)])] ''type'' = Some (JStr ''vacuum-chamber'')"
    by simp
  have u1: "''vacuum-chamber'' = ''spectrometer'' \<or> ''vacuum-chamber'' = ''vacuum-chamber''"
    by simp
  have n1: "map_of [(''type'', JStr ''vacuum-chamber''), (''capabilities'', JObj [(''has_spectrometer'', JBool True), (''is_monochromatic'', JBool True), (''has_vacuum_chamber'', JInt 1)])] ''name'' = None \<and> ''Unknown Device'' = ''Unknown Device'' \<or>
      map_of [(''type'', JStr ''vacuum-chamber''), (''capabilities'', JObj [(''has_spectrometer'', JBool True), (''is_monochromatic'', JBool True), (''has_vacuum_chamber'', JInt 1)])] ''name'' = Some (JStr ''Unknown Device'')"
    by simp
  have c1: "map_of [(''type'', JStr ''vacuum-chamber''), (''capabilities'', JObj [(''has_spectrometer'', JBool True), (''is_monochromatic'', JBool True), (''has_vacuum_chamber'', JInt 1)])] ''capabilities'' = None \<and> [(''has_spectrometer'', JBool True), (''is_monochromatic'', JBool True), (''has_vacuum_chamber'', JInt 1)] = [] \<or>
      map_of [(''type'', JStr ''vacuum-chamber''), (''capabilities'', JObj [(''has_spectrometer'', JBool True), (''is_monochromatic'', JBool True), (''has_vacuum_chamber'', JInt 1)])] ''capabilities'' = Some (JObj [(''has_spectrometer'', JBool True), (''is_monochromatic'', JBool True), (''has_vacuum_chamber'', JInt 1)])"
    by simp
  have hs1: "True \<longleftrightarrow> (\<exists>v. map_of [(''has_spectrometer'', JBool True), (''is_monochromatic'', JBool True), (''has_vacuum_chamber'', JInt 1)] ''has_spectrometer'' = Some v \<and> truthy v)"
    by simp
  have hc1: "True \<longleftrightarrow> (\<exists>v. map_of [(''has_spectrometer'', JBool True), (''is_monochromatic'', JBool True), (''has_vacuum_chamber'', JInt 1)] ''has_vacuum_chamber'' = Some v \<and> truthy v)"
    by simp
  have m1: "True \<longrightarrow>
      map_of [(''has_spectrometer'', JBool True), (''is_monochromatic'', JBool True), (''has_vacuum_chamber'', JInt 1)] ''is_monochromatic'' = None \<and> \<not> True \<or>
      (\<exists>v. map_of [(''has_spectrometer'', JBool True), (''is_monochromatic'', JBool True), (''has_vacuum_chamber'', JInt 1)] ''is_monochromatic'' = Some v \<and> validate_bool v = Inr True)"
    by (simp add: validate_bool_def)
  have p1: "True \<longrightarrow>
      map_of [(''has_spectrometer'', JBool True), (''is_monochromatic'', JBool True), (''has_vacuum_chamber'', JInt 1)] ''process_type'' = None \<and> TWO_COMPONENT = TWO_COMPONENT \<or>
      (\<exists>v. map_of [(''has_spectrometer'', JBool True), (''is_monochromatic'', JBool True), (''has_vacuum_chamber'', JInt 1)] ''process_type'' = Some v \<and> ProcessType_of v = Inr TWO_COMPONENT)"
    by simp
  note r1 = C4_valid_body_provisioning[OF q1 t1 u1 n1 c1 hs1 hc1 m1 p1,
      of 8100 "''localhost''" "''http://monitor''" init_registry]
  have q2: "get_outcome env_spec_only = Response 200 (Some (JObj [(''type'', JStr ''spectrometer''), (''name'', JStr ''Bench''), (''capabilities'', JObj [(''has_spectrometer'', JBool True), (''has_vacuum_chamber'', JBool False)])]))"
    by (simp add: env_spec_only_def )
  have t2: "map_of [(''type'', JStr ''spectrometer''), (''name'', JStr ''Bench''), (''capabilities'', JObj [(''has_spectrometer'', JBool True), (''has_vacuum_chamber'', JBool False)])] ''type'' = Some (JStr ''spectrometer'')"
    by simp
  have u2: "''spectrometer'' = ''spectrometer'' \<or> ''spectrometer'' = ''vacuum-chamber''"
    by simp
  have n2: "map_of [(''type'', JStr ''spectrometer''), (''name'', JStr ''Bench''), (''capabilities'', JObj [(''has_spectrometer'', JBool True), (''has_vacuum_chamber'', JBool False)])] ''name'' = None \<and> ''Bench'' = ''Unknown Device'' \<or>
      map_of [(''type'', JStr ''spectrometer''), (''name'', JStr ''Bench''), (''capabilities'', JObj [(''has_spectrometer'', JBool True), (''has_vacuum_chamber'', JBool False)])] ''name'' = Some (JStr ''Bench'')"
    by simp
  have c2: "map_of [(''type'', JStr ''spectrometer''), (''name'', JStr ''Bench''), (''capabilities'', JObj [(''has_spectrometer'', JBool True), (''has_vacuum_chamber'', JBool False)])] ''capabilities'' = None \<and> [(''has_spectrometer'', JBool True), (''has_vacuum_chamber'', JBool False)] = [] \<or>
      map_of [(''type'', JStr ''spectrometer''), (''name'', JStr ''Bench''), (''capabilities'', JObj [(''has_spectrometer'', JBool True), (''has_vacuum_chamber'', JBool False)])] ''capabilities'' = Some (JObj [(''has_spectrometer'', JBool True), (''has_vacuum_chamber'', JBool False)])"
    by simp
  have hs2: "True \<longleftrightarrow> (\<exists>v. map_of [(''has_spectrometer'', JBool True), (''has_vacuum_chamber'', JBool False)] ''has_spectrometer'' = Some v \<and> truthy v)"
    by simp
  have hc2: "False \<longleftrightarrow> (\<exists>v. map_of [(''has_spectrometer'', JBool True), (''has_vacuum_chamber'', JBool False)] ''has_vacuum_chamber'' = Some v \<and> truthy v)"
    by simp
  have m2: "True \<longrightarrow>
      map_of [(''has_spectrometer'', JBool True), (''has_vacuum_chamber'', JBool False)] ''is_monochromatic'' = None \<and> \<not> False \<or>
      (\<exists>v. map_of [(''has_spectrometer'', JBool True), (''has_vacuum_chamber'', JBool False)] ''is_monochromatic'' = Some v \<and> validate_bool v = Inr False)"
    by (simp add: validate_bool_def)
  have p2: "False \<longrightarrow>
      map_of [(''has_spectrometer'', JBool True), (''has_vacuum_chamber'', JBool False)] ''process_type'' = None \<and> TWO_COMPONENT = TWO_COMPONENT \<or>
      (\<exists>v. map_of [(''has_spectrometer'', JBool True), (''has_vacuum_chamber'', JBool False)] ''process_type'' = Some v \<and> ProcessType_of v = Inr TWO_COMPONENT)"
    by simp
  note r2 = C4_valid_body_provisioning[OF q2 t2 u2 n2 c2 hs2 hc2 m2 p2,
      of 8100 "''localhost''" "''http://monitor''" init_registry]
  have q3: "get_outcome env_bare = Response 200 (Some (JObj [(''type'', JStr ''spectrometer'')]))"
    by (simp add: env_bare_def env_spec_only_def)
  have t3: "map_of [(''type'', JStr ''spectrometer'')] ''type'' = Some (JStr ''spectrometer'')"
    by simp
  have u3: "''spectrometer'' = ''spectrometer'' \<or> ''spectrometer'' = ''vacuum-chamber''"
    by simp
  have n3: "map_of [(''type'', JStr ''spectrometer'')] ''name'' = None \<and> ''Unknown Device'' = ''Unknown Device'' \<or>
      map_of [(''type'', JStr ''spectrometer'')] ''name'' = Some (JStr ''Unknown Device'')"
    by simp
  have c3: "map_of [(''type'', JStr ''spectrometer'')] ''capabilities'' = None \<and> [] = [] \<or>
      map_of [(''type'', JStr ''spectrometer'')] ''capabilities'' = Some (JObj [])"
    by simp
  have hs3: "False \<longleftrightarrow> (\<exists>v. map_of [] ''has_spectrometer'' = Some v \<and> truthy v)"
    by simp
  have hc3: "False \<longleftrightarrow> (\<exists>v. map_of [] ''has_vacuum_chamber'' = Some v \<and> truthy v)"
    by simp
  have m3: "False \<longrightarrow>
      map_of [] ''is_monochromatic'' = None \<and> \<not> False \<or>
      (\<exists>v. map_of [] ''is_monochromatic'' = Some v \<and> validate_bool v = Inr False)"
    by (simp add: validate_bool_def)
  have p3: "False \<longrightarrow>
      map_of [] ''process_type'' = None \<and> TWO_COMPONENT = TWO_COMPONENT \<or>
      (\<exists>v. map_of [] ''process_type'' = Some v \<and> ProcessType_of v = Inr TWO_COMPONENT)"
    by simp
  note r3 = C4_valid_body_provisioning[OF q3 t3 u3 n3 c3 hs3 hc3 m3 p3,
      of 8100 "''localhost''" "''http://monitor''" init_registry]
  have w1: "discover_device 8100 ''localhost'' ''http://monitor'' env_both init_registry =
     ((Some device_both, Some ''s-1'', Some ''c-1''), registry_both)"
    unfolding r1
    by (simp add: env_both_def device_both_def registry_both_def init_registry_def)
  have w2: "discover_device 8100 ''localhost'' ''http://monitor'' env_spec_only init_registry =
     ((Some device_spec_only, Some ''s-2'', None), registry_spec_only)"
    unfolding r2
    by (simp add: env_spec_only_def device_spec_only_def registry_spec_only_def
        init_registry_def)
  have w3: "discover_device 8100 ''localhost'' ''http://monitor'' env_bare init_registry =
     ((Some (device_spec_only\<lparr>name_d := ''Unknown Device'', capabilities_d := []\<rparr>), None, None),
      init_registry\<lparr>devices := [(''d-2'',
         device_spec_only\<lparr>name_d := ''Unknown Device'', capabilities_d := []\<rparr>)]\<rparr>)"
    unfolding r3
    by (simp add: env_bare_def env_spec_only_def device_spec_only_def init_registry_def)
  show ?thesis
    using w1 w2 w3 by (intro conjI)
qed

subsection \<open>Broadcasting to the subscribers\<close>

text \<open>What one pass records for a connection.\<close>

lemma send_loop_events:
  "fst (send_loop send_text msg cs (events, disconnected)) =
     events @ map (\<lambda>c. case send_text c msg of Inr u \<Rightarrow> Sent c msg | Inl e \<Rightarrow> SendFailed c e) cs"
  by (induction cs arbitrary: events disconnected) (auto split: sum.splits)

lemma send_loop_disconnected_subset:
  "set (snd (send_loop send_text msg cs (events, disconnected))) \<subseteq> set disconnected \<union> set cs"
proof (induction cs arbitrary: events disconnected)
  case Nil
  then show ?case by simp
next
  case (Cons c cs)
  show ?case
  proof (cases "send_text c msg")
    case (Inl e)
    then show ?thesis
      using Cons.IH[of "events @ [SendFailed c e]" "List.insert c disconnected"] by auto
  next
    case (Inr u)
    then show ?thesis
      using Cons.IH[of "events @ [Sent c msg]" disconnected] by auto
  qed
qed

lemma send_loop_one_failure:
  assumes "\<forall>c\<in>set cs. (\<exists>e. send_text c msg = Inl e) \<longleftrightarrow> c = bad"
  shows "snd (send_loop send_text msg cs (events, disconnected)) =
           (if bad \<in> set cs then List.insert bad disconnected else disconnected)"
  using assms
proof (induction cs arbitrary: events disconnected)
  case Nil
  then show ?case by simp
next
  case (Cons c cs)
  have rest: "\<forall>c\<in>set cs. (\<exists>e. send_text c msg = Inl e) \<longleftrightarrow> c = bad"
    using Cons.prems by simp
  show ?case
  proof (cases "send_text c msg")
    case (Inl e)
    then have "c = bad" using Cons.prems by auto
    then show ?thesis
      using Inl Cons.IH[OF rest, of "events @ [SendFailed c e]" "List.insert c disconnected"]
      by simp
  next
    case (Inr u)
    then have "c \<noteq> bad" using Cons.prems by auto
    then show ?thesis
      using Inr Cons.IH[OF rest, of "events @ [Sent c msg]" disconnected]
      by simp
  qed
qed

lemma filter_removeAll: "filter P (removeAll d xs) = filter (\<lambda>c. c \<noteq> d \<and> P c) xs"
  by (induction xs) auto

lemma fold_disconnect:
  "active_connections (fold disconnect ds m) = filter (\<lambda>c. c \<notin> set ds) (active_connections m)"
proof (induction ds arbitrary: m)
  case Nil
  then show ?case by simp
next
  case (Cons d ds)
  have "active_connections (fold disconnect (d # ds) m) =
      filter (\<lambda>c. c \<notin> set ds) (removeAll d (active_connections m))"
    by (simp add: Cons.IH disconnect_def)
  also have "\<dots> = filter (\<lambda>c. c \<noteq> d \<and> c \<notin> set ds) (active_connections m)"
    by (rule filter_removeAll)
  also have "\<dots> = filter (\<lambda>c. c \<notin> set (d # ds)) (active_connections m)"
    by (rule filter_cong) auto
  finally show ?case .
qed

text \<open>
  Every broadcast returns normally; it attempts each connection of the set once, in
  order, and only then disconnects connections, all of them members of the set.
\<close>

lemma broadcast_shape:
  "\<exists>ds. broadcast_spectral_data sid ts readings send_text m =
          (Inr (),
           map (\<lambda>c. case send_text c (spectral_message sid ts readings) of
                      Inr u \<Rightarrow> Sent c (spectral_message sid ts readings)
                    | Inl e \<Rightarrow> SendFailed c e) (active_connections m)
             @ map Disconnected ds,
           fold disconnect ds m) \<and>
        set ds \<subseteq> set (active_connections m)"
proof (cases "active_connections m = []")
  case True
  then show ?thesis
    by (intro exI[of _ "[]"]) (simp add: broadcast_spectral_data_def)
next
  case False
  let ?msg = "spectral_message sid ts readings"
  let ?res = "send_loop send_text ?msg (active_connections m) ([], [])"
  have ev: "fst ?res = map (\<lambda>c. case send_text c ?msg of Inr u \<Rightarrow> Sent c ?msg
      | Inl e \<Rightarrow> SendFailed c e) (active_connections m)"
    using send_loop_events[of send_text ?msg "active_connections m" "[]" "[]"] by simp
  have sub: "set (snd ?res) \<subseteq> set (active_connections m)"
    using send_loop_disconnected_subset[of send_text ?msg "active_connections m" "[]" "[]"]
    by simp
  have "broadcast_spectral_data sid ts readings send_text m =
      (Inr (), fst ?res @ map Disconnected (snd ?res), fold disconnect (snd ?res) m)"
    using False by (simp add: broadcast_spectral_data_def Let_def split: prod.splits)
  then show ?thesis
    using ev sub by (intro exI[of _ "snd ?res"]) simp
qed

lemma count_one:
  assumes "distinct xs" and "c \<in> set xs" and "\<forall>x\<in>set xs. f x = y \<longleftrightarrow> x = c"
  shows "count_list (map f xs) y = 1"
  using assms
proof (induction xs)
  case Nil
  then show ?case by simp
next
  case (Cons x xs)
  show ?case
  proof (cases "x = c")
    case True
    then have "\<forall>z\<in>set xs. f z \<noteq> y" using Cons.prems by auto
    then have "count_list (map f xs) y = 0" by (auto simp: count_list_0_iff)
    then show ?thesis using True Cons.prems by simp
  next
    case False
    then show ?thesis using Cons by auto
  qed
qed


lemma broadcast_one_failure:
  assumes d: "distinct (active_connections m)"
    and b: "bad \<in> set (active_connections m)"
    and f: "\<forall>c\<in>set (active_connections m).
              (\<exists>e. send_text c (spectral_message sid ts readings) = Inl e) \<longleftrightarrow> c = bad"
  shows "\<exists>e. send_text bad (spectral_message sid ts readings) = Inl e \<and>
           broadcast_spectral_data sid ts readings send_text m =
             (Inr (),
              map (\<lambda>c. if c = bad then SendFailed c e else Sent c (spectral_message sid ts readings))
                (active_connections m) @ [Disconnected bad],
              m\<lparr>active_connections := removeAll bad (active_connections m)\<rparr>)"
proof -
  let ?msg = "(spectral_message sid ts readings)"
  let ?cs = "active_connections m"
  let ?res = "send_loop send_text ?msg ?cs ([], [])"
  obtain e where e: "send_text bad ?msg = Inl e"
    using b f by blast
  have ne: "?cs \<noteq> []"
    using b by auto
  have ev: "fst ?res = map (\<lambda>c. case send_text c ?msg of Inr u \<Rightarrow> Sent c ?msg
      | Inl e \<Rightarrow> SendFailed c e) ?cs"
    using send_loop_events[of send_text ?msg ?cs "[]" "[]"] by simp
  have same: "map (\<lambda>c. case send_text c ?msg of Inr u \<Rightarrow> Sent c ?msg | Inl e \<Rightarrow> SendFailed c e) ?cs =
      map (\<lambda>c. if c = bad then SendFailed c e else Sent c ?msg) ?cs"
  proof (rule map_cong[OF refl])
    fix c assume c: "c \<in> set ?cs"
    show "(case send_text c ?msg of Inr u \<Rightarrow> Sent c ?msg | Inl e \<Rightarrow> SendFailed c e) =
        (if c = bad then SendFailed c e else Sent c ?msg)"
    proof (cases "c = bad")
      case True
      then show ?thesis using e by simp
    next
      case False
      then have "\<not> (\<exists>e. send_text c ?msg = Inl e)" using f c by blast
      then show ?thesis using False by (cases "send_text c ?msg") auto
    qed
  qed
  have dis: "snd ?res = [bad]"
    using f b send_loop_one_failure[where cs = ?cs and send_text = send_text and msg = ?msg
        and bad = bad and events = "[]" and disconnected = "[]"]
    by simp
  have "broadcast_spectral_data sid ts readings send_text m =
      (Inr (), fst ?res @ map Disconnected (snd ?res), fold disconnect (snd ?res) m)"
    using ne by (simp add: broadcast_spectral_data_def Let_def split: prod.splits)
  then have "broadcast_spectral_data sid ts readings send_text m =
      (Inr (), map (\<lambda>c. if c = bad then SendFailed c e else Sent c ?msg) ?cs @ [Disconnected bad],
       m\<lparr>active_connections := removeAll bad ?cs\<rparr>)"
    by (simp add: ev same dis disconnect_def)
  then show ?thesis
    using e by blast
qed


lemma broadcast_one_failure_full:
  assumes d: "distinct (active_connections m)"
    and b: "bad \<in> set (active_connections m)"
    and f: "\<forall>c\<in>set (active_connections m).
              (\<exists>e. send_text c (spectral_message sid ts readings) = Inl e) \<longleftrightarrow> c = bad"
  shows "(\<exists>e events m'.
        broadcast_spectral_data sid ts readings send_text m = (Inr (), events, m') \<and>
        events = map (\<lambda>c. if c = bad then SendFailed c e else Sent c (spectral_message sid ts readings))
                   (active_connections m) @ [Disconnected bad] \<and>
        (\<forall>c\<in>set (active_connections m). c \<noteq> bad \<longrightarrow>
             count_list events (Sent c (spectral_message sid ts readings)) = 1 \<and>
             (\<forall>x. Sent c x \<in> set events \<longrightarrow> x = (spectral_message sid ts readings))) \<and>
        (\<forall>x. Sent bad x \<notin> set events) \<and>
        active_connections m' = removeAll bad (active_connections m) \<and>
        length (active_connections m') = length (active_connections m) - 1 \<and>
        (\<forall>sid2 ts2 readings2 send_text2. \<exists>ds.
            broadcast_spectral_data sid2 ts2 readings2 send_text2 m' =
              (Inr (),
               map (\<lambda>c. case send_text2 c (spectral_message sid2 ts2 readings2) of
                          Inr u \<Rightarrow> Sent c (spectral_message sid2 ts2 readings2)
                        | Inl e2 \<Rightarrow> SendFailed c e2)
                   (removeAll bad (active_connections m))
                 @ map Disconnected ds,
               fold disconnect ds m')))"
proof -
  let ?msg = "(spectral_message sid ts readings)"
  let ?cs = "active_connections m"
  let ?m' = "m\<lparr>active_connections := removeAll bad ?cs\<rparr>"
  have "\<exists>e. send_text bad ?msg = Inl e \<and>
           broadcast_spectral_data sid ts readings send_text m =
             (Inr (), map (\<lambda>c. if c = bad then SendFailed c e else Sent c ?msg) ?cs
                @ [Disconnected bad], ?m')"
    using d b f
    by (rule broadcast_one_failure[where m = m and bad = bad and send_text = send_text
        and sid = sid and ts = ts and readings = readings])
  then obtain e where e: "send_text bad ?msg = Inl e"
    and run: "broadcast_spectral_data sid ts readings send_text m =
             (Inr (), map (\<lambda>c. if c = bad then SendFailed c e else Sent c ?msg) ?cs
                @ [Disconnected bad], ?m')"
    by (elim exE conjE)
  let ?f = "\<lambda>c. if c = bad then SendFailed c e else Sent c ?msg"
  let ?events = "map ?f ?cs @ [Disconnected bad]"
  have once: "\<forall>c\<in>set ?cs. c \<noteq> bad \<longrightarrow>
             count_list ?events (Sent c ?msg) = 1 \<and>
             (\<forall>x. Sent c x \<in> set ?events \<longrightarrow> x = ?msg)"
  proof (intro ballI impI conjI)
    fix c assume c: "c \<in> set ?cs" "c \<noteq> bad"
    have h: "\<forall>x\<in>set ?cs. ?f x = Sent c ?msg \<longleftrightarrow> x = c"
      using c by simp
    have "count_list (map ?f ?cs) (Sent c ?msg) = 1"
      by (rule count_one[where xs = ?cs and c = c and f = ?f and y = "Sent c ?msg",
            OF d c(1) h])
    then show "count_list ?events (Sent c ?msg) = 1"
      by simp
    show "\<forall>x. Sent c x \<in> set ?events \<longrightarrow> x = ?msg"
      by (auto split: if_splits)
  qed
  have never: "\<forall>x. Sent bad x \<notin> set ?events"
    by (auto split: if_splits)
  have len: "length (active_connections ?m') = length ?cs - 1"
  proof -
    have "length (removeAll bad ?cs) = length (remove1 bad ?cs)"
      by (simp only: distinct_remove1_removeAll[OF d])
    also have "\<dots> = length ?cs - 1"
      using b by (simp only: length_remove1 if_True)
    finally show ?thesis
      by simp
  qed
  have next_pass: "\<forall>sid2 ts2 readings2 send_text2. \<exists>ds.
            broadcast_spectral_data sid2 ts2 readings2 send_text2 ?m' =
              (Inr (),
               map (\<lambda>c. case send_text2 c (spectral_message sid2 ts2 readings2) of
                          Inr u \<Rightarrow> Sent c (spectral_message sid2 ts2 readings2)
                        | Inl e2 \<Rightarrow> SendFailed c e2)
                   (removeAll bad ?cs)
                 @ map Disconnected ds,
               fold disconnect ds ?m')"
  proof (intro allI)
    fix sid2 ts2 readings2 send_text2
    show "\<exists>ds. broadcast_spectral_data sid2 ts2 readings2 send_text2 ?m' =
              (Inr (),
               map (\<lambda>c. case send_text2 c (spectral_message sid2 ts2 readings2) of
                          Inr u \<Rightarrow> Sent c (spectral_message sid2 ts2 readings2)
                        | Inl e2 \<Rightarrow> SendFailed c e2)
                   (removeAll bad ?cs)
                 @ map Disconnected ds,
               fold disconnect ds ?m')"
    proof -
      obtain ds where "broadcast_spectral_data sid2 ts2 readings2 send_text2 ?m' =
          (Inr (),
           map (\<lambda>c. case send_text2 c (spectral_message sid2 ts2 readings2) of
                      Inr u \<Rightarrow> Sent c (spectral_message sid2 ts2 readings2)
                    | Inl e \<Rightarrow> SendFailed c e) (active_connections ?m')
             @ map Disconnected ds,
           fold disconnect ds ?m')"
        using broadcast_shape[of sid2 ts2 readings2 send_text2 ?m'] by (elim exE conjE)
      then show ?thesis
        by (intro exI[of _ ds]) simp
    qed
  qed
  have rest: "active_connections ?m' = removeAll bad ?cs"
    by simp
  show ?thesis
    apply (rule exI[of _ e], rule exI[of _ ?events], rule exI[of _ ?m'])
    apply (intro conjI)
          apply (rule run)
         apply (rule refl)
        apply (rule once)
       apply (rule never)
      apply (rule rest)
     apply (rule len)
    apply (rule next_pass)
    done
qed


lemma broadcast_empty:
  "active_connections m0 = [] \<Longrightarrow>
     broadcast_spectral_data sid ts readings send_text m0 = (Inr (), [], m0)"
  by (simp add: broadcast_spectral_data_def)

text \<open>
  Claim C7. When exactly one subscriber of the set raises on \<open>send_text\<close>, the
  broadcast returns normally; every connection is attempted once, in one pass, and each
  other subscriber is sent the one message, the object with the keys
  \<open>spectrometer_id\<close>, \<open>timestamp\<close> and \<open>calibrated_readings\<close> holding the
  arguments of the call, exactly once; the failing subscriber is disconnected after
  the last attempt of the pass; the set then holds the other subscribers, one fewer,
  and a following broadcast attempts exactly these. A broadcast to an empty set returns
  normally and does nothing.
\<close>

theorem C7_broadcast_isolates_failure:
  "(distinct (active_connections m) \<and> bad \<in> set (active_connections m) \<and>
    (\<forall>c\<in>set (active_connections m).
        (\<exists>e. send_text c (JObj [(''spectrometer_id'', JStr sid), (''timestamp'', JStr ts),
                  (''calibrated_readings'', JArr (map JFloat readings))]) = Inl e) \<longleftrightarrow> c = bad) \<longrightarrow>
    (\<exists>e events m'.
        broadcast_spectral_data sid ts readings send_text m = (Inr (), events, m') \<and>
        events = map (\<lambda>c. if c = bad then SendFailed c e else Sent c (JObj [(''spectrometer_id'', JStr sid), (''timestamp'', JStr ts),
                  (''calibrated_readings'', JArr (map JFloat readings))]))
                   (active_connections m) @ [Disconnected bad] \<and>
        (\<forall>c\<in>set (active_connections m). c \<noteq> bad \<longrightarrow>
             count_list events (Sent c (JObj [(''spectrometer_id'', JStr sid), (''timestamp'', JStr ts),
                  (''calibrated_readings'', JArr (map JFloat readings))])) = 1 \<and>
             (\<forall>x. Sent c x \<in> set events \<longrightarrow> x = (JObj [(''spectrometer_id'', JStr sid), (''timestamp'', JStr ts),
                  (''calibrated_readings'', JArr (map JFloat readings))]))) \<and>
        (\<forall>x. Sent bad x \<notin> set events) \<and>
        active_connections m' = removeAll bad (active_connections m) \<and>
        length (active_connections m') = length (active_connections m) - 1 \<and>
        (\<forall>sid2 ts2 readings2 send_text2. \<exists>ds.
            broadcast_spectral_data sid2 ts2 readings2 send_text2 m' =
              (Inr (),
               map (\<lambda>c. case send_text2 c (JObj [(''spectrometer_id'', JStr sid2), (''timestamp'', JStr ts2),
                  (''calibrated_readings'', JArr (map JFloat readings2))]) of
                          Inr u \<Rightarrow> Sent c (JObj [(''spectrometer_id'', JStr sid2), (''timestamp'', JStr ts2),
                  (''calibrated_readings'', JArr (map JFloat readings2))])
                        | Inl e2 \<Rightarrow> SendFailed c e2)
                   (removeAll bad (active_connections m))
                 @ map Disconnected ds,
               fold disconnect ds m')))) \<and>
   (active_connections m0 = [] \<longrightarrow>
      broadcast_spectral_data sid ts readings send_text m0 = (Inr (), [], m0))"
proof (intro conjI impI)
  assume a: "distinct (active_connections m) \<and> bad \<in> set (active_connections m) \<and>
    (\<forall>c\<in>set (active_connections m).
        (\<exists>e. send_text c (JObj [(''spectrometer_id'', JStr sid), (''timestamp'', JStr ts),
                  (''calibrated_readings'', JArr (map JFloat readings))]) = Inl e) \<longleftrightarrow> c = bad)"
  have d: "distinct (active_connections m)"
    using a by (rule conjunct1)
  have b: "bad \<in> set (active_connections m)"
    using a by (elim conjE)
  have f: "\<forall>c\<in>set (active_connections m).
        (\<exists>e. send_text c (JObj [(''spectrometer_id'', JStr sid), (''timestamp'', JStr ts),
                  (''calibrated_readings'', JArr (map JFloat readings))]) = Inl e) \<longleftrightarrow> c = bad"
    using a by (elim conjE)
  show "(\<exists>e events m'.
        broadcast_spectral_data sid ts readings send_text m = (Inr (), events, m') \<and>
        events = map (\<lambda>c. if c = bad then SendFailed c e else Sent c (JObj [(''spectrometer_id'', JStr sid), (''timestamp'', JStr ts),
                  (''calibrated_readings'', JArr (map JFloat readings))]))
                   (active_connections m) @ [Disconnected bad] \<and>
        (\<forall>c\<in>set (active_connections m). c \<noteq> bad \<longrightarrow>
             count_list events (Sent c (JObj [(''spectrometer_id'', JStr sid), (''timestamp'', JStr ts),
                  (''calibrated_readings'', JArr (map JFloat readings))])) = 1 \<and>
             (\<forall>x. Sent c x \<in> set events \<longrightarrow> x = (JObj [(''spectrometer_id'', JStr sid), (''timestamp'', JStr ts),
                  (''calibrated_readings'', JArr (map JFloat readings))]))) \<and>
        (\<forall>x. Sent bad x \<notin> set events) \<and>
        active_connections m' = removeAll bad (active_connections m) \<and>
        length (active_connections m') = length (active_connections m) - 1 \<and>
        (\<forall>sid2 ts2 readings2 send_text2. \<exists>ds.
            broadcast_spectral_data sid2 ts2 readings2 send_text2 m' =
              (Inr (),
               map (\<lambda>c. case send_text2 c (JObj [(''spectrometer_id'', JStr sid2), (''timestamp'', JStr ts2),
                  (''calibrated_readings'', JArr (map JFloat readings2))]) of
                          Inr u \<Rightarrow> Sent c (JObj [(''spectrometer_id'', JStr sid2), (''timestamp'', JStr ts2),
                  (''calibrated_readings'', JArr (map JFloat readings2))])
                        | Inl e2 \<Rightarrow> SendFailed c e2)
                   (removeAll bad (active_connections m))
                 @ map Disconnected ds,
               fold disconnect ds m')))"
    using d b f
    by (rule broadcast_one_failure_full[where m = m and bad = bad and send_text = send_text
      and sid = sid and ts = ts and readings = readings, unfolded spectral_message_def])
next
  assume "active_connections m0 = []"
  then show "broadcast_spectral_data sid ts readings send_text m0 = (Inr (), [], m0)"
    by (rule broadcast_empty)
qed

text \<open>
  Three subscribers of which the second raises, then a broadcast to the two that are
  left, and a broadcast to nobody.
\<close>

theorem C7_broadcast_isolates_failure_witness:
  "distinct (active_connections example_manager) \<and>
   2 \<in> set (active_connections example_manager) \<and>
   map (\<lambda>c. second_fails c (JObj [(''spectrometer_id'', JStr ''A''), (''timestamp'', JStr ''t1''),
                  (''calibrated_readings'', JArr [JFloat 10.5, JFloat 25.3])]))
     (active_connections example_manager) = [Inr (), Inl OtherError, Inr ()] \<and>
   broadcast_spectral_data ''A'' ''t1'' [10.5, 25.3] second_fails example_manager =
     (Inr (),
      [Sent 1 (JObj [(''spectrometer_id'', JStr ''A''), (''timestamp'', JStr ''t1''),
                  (''calibrated_readings'', JArr [JFloat 10.5, JFloat 25.3])]), SendFailed 2 OtherError,
       Sent 3 (JObj [(''spectrometer_id'', JStr ''A''), (''timestamp'', JStr ''t1''),
                  (''calibrated_readings'', JArr [JFloat 10.5, JFloat 25.3])]), Disconnected 2],
      \<lparr>active_connections = [1, 3]\<rparr>) \<and>
   broadcast_spectral_data ''A'' ''t2'' [11] all_accept \<lparr>active_connections = [1, 3]\<rparr> =
     (Inr (),
      [Sent 1 (JObj [(''spectrometer_id'', JStr ''A''), (''timestamp'', JStr ''t2''),
                  (''calibrated_readings'', JArr [JFloat 11])]), Sent 3 (JObj [(''spectrometer_id'', JStr ''A''), (''timestamp'', JStr ''t2''),
                  (''calibrated_readings'', JArr [JFloat 11])])],
      \<lparr>active_connections = [1, 3]\<rparr>) \<and>
   broadcast_spectral_data ''A'' ''t2'' [11] all_accept \<lparr>active_connections = []\<rparr> =
     (Inr (), [], \<lparr>active_connections = []\<rparr>)"
proof -
  have h: "distinct (active_connections example_manager) \<and>
     2 \<in> set (active_connections example_manager) \<and>
     (\<forall>c\<in>set (active_connections example_manager).
        (\<exists>e. second_fails c (JObj [(''spectrometer_id'', JStr ''A''), (''timestamp'', JStr ''t1''),
                  (''calibrated_readings'', JArr (map JFloat [10.5, 25.3]))]) = Inl e) \<longleftrightarrow> c = 2)"
    by (simp add: example_manager_def second_fails_def)
  have e1: "broadcast_spectral_data ''A'' ''t1'' [10.5, 25.3] second_fails example_manager =
     (Inr (),
      [Sent 1 (JObj [(''spectrometer_id'', JStr ''A''), (''timestamp'', JStr ''t1''),
                  (''calibrated_readings'', JArr [JFloat 10.5, JFloat 25.3])]), SendFailed 2 OtherError,
       Sent 3 (JObj [(''spectrometer_id'', JStr ''A''), (''timestamp'', JStr ''t1''),
                  (''calibrated_readings'', JArr [JFloat 10.5, JFloat 25.3])]), Disconnected 2],
      \<lparr>active_connections = [1, 3]\<rparr>)"
    by (simp add: example_manager_def second_fails_def broadcast_spectral_data_def
        spectral_message_def disconnect_def Let_def)
  have e2: "broadcast_spectral_data ''A'' ''t2'' [11] all_accept \<lparr>active_connections = [1, 3]\<rparr> =
     (Inr (),
      [Sent 1 (JObj [(''spectrometer_id'', JStr ''A''), (''timestamp'', JStr ''t2''),
                  (''calibrated_readings'', JArr [JFloat 11])]), Sent 3 (JObj [(''spectrometer_id'', JStr ''A''), (''timestamp'', JStr ''t2''),
                  (''calibrated_readings'', JArr [JFloat 11])])],
      \<lparr>active_connections = [1, 3]\<rparr>)"
    by (simp add: all_accept_def broadcast_spectral_data_def spectral_message_def Let_def)
  have e3: "broadcast_spectral_data ''A'' ''t2'' [11] all_accept \<lparr>active_connections = []\<rparr> =
     (Inr (), [], \<lparr>active_connections = []\<rparr>)"
    by (simp add: broadcast_spectral_data_def)
  note c = C7_broadcast_isolates_failure[where m = example_manager and bad = 2
      and send_text = second_fails and sid = "''A''" and ts = "''t1''"
      and readings = "[10.5, 25.3]", THEN conjunct1, THEN mp, OF h]
  have ok: "fst (broadcast_spectral_data ''A'' ''t1'' [10.5, 25.3] second_fails example_manager)
      = Inr ()"
    using c by (elim exE conjE) (simp only: fst_conv)
  have sends: "map (\<lambda>c. second_fails c (JObj [(''spectrometer_id'', JStr ''A''), (''timestamp'', JStr ''t1''),
                  (''calibrated_readings'', JArr [JFloat 10.5, JFloat 25.3])]))
     (active_connections example_manager) = [Inr (), Inl OtherError, Inr ()]"
    by (simp add: example_manager_def second_fails_def)
  show ?thesis
    using h sends e1 e2 e3 ok by simp
qed

subsection \<open>At most one active resource of each kind\<close>





























end
